theory Spec2Isabelle
  imports Main "HOL-Library.Word"
begin

section \<open>JavaScript values\<close>

text \<open>
  The client of \<^verbatim>\<open>src/mpesa.ts\<close> receives its arguments and the bodies of HTTP
  responses as untyped JavaScript values (\<^verbatim>\<open>any\<close>), and tests them with \<^verbatim>\<open>!x\<close> and
  \<^verbatim>\<open>a || b\<close>. A number is an integer from \<open>- 2 ^ 53\<close> to \<open>2 ^ 53 - 1\<close>, held as a
  54-bit word and read as a signed value, or NaN: every such integer is a double, and
  \<^verbatim>\<open>Number.prototype.toString\<close> prints it in plain decimal digits (the exponent
  form starts at \<open>10 ^ 21\<close>, and above \<open>2 ^ 53\<close> the digits printed are no longer those
  of the integer). Fractions, larger numbers and the infinities are not values of the
  model. A string is a list of code units below 256; an object is its list of own
  properties, read from the front.
\<close>

type_synonym number = "54 word"

datatype jsval =
    JUndefined
  | JNull
  | JBool bool
  | JNum number
  | JNaN
  | JStr string
  | JArr "jsval list"
  | JObj "(string \<times> jsval) list"

text \<open>\<^verbatim>\<open>!!v\<close>: the values that are not falsy.\<close>

fun truthy :: "jsval \<Rightarrow> bool" where
  "truthy JUndefined = False"
| "truthy JNull = False"
| "truthy (JBool b) = b"
| "truthy (JNum n) = (n \<noteq> 0)"
| "truthy JNaN = False"
| "truthy (JStr s) = (s \<noteq> [])"
| "truthy (JArr xs) = True"
| "truthy (JObj kvs) = True"

text \<open>\<^verbatim>\<open>a || b\<close>.\<close>

definition orJS :: "jsval \<Rightarrow> jsval \<Rightarrow> jsval" where
  "orJS a b = (if truthy a then a else b)"

text \<open>A parameter default \<^verbatim>\<open>p = d\<close>: it applies to \<^verbatim>\<open>undefined\<close> only.\<close>

definition dflt :: "jsval \<Rightarrow> jsval \<Rightarrow> jsval" where
  "dflt v d = (if v = JUndefined then d else v)"

subsection \<open>Decimal numerals\<close>

text \<open>
  The decimal numeral of a natural number and of an integer. The client prints HTTP
  status codes, which have three digits, and numbers of the model.
\<close>

definition digit_char :: "nat \<Rightarrow> char" where
  "digit_char d = ''0123456789'' ! (d mod 10)"

fun show_nat :: "nat \<Rightarrow> string" where
  "show_nat n = (if n < 10 then [digit_char n] else show_nat (n div 10) @ [digit_char n])"

declare show_nat.simps [simp del]

definition show_int :: "int \<Rightarrow> string" where
  "show_int i = (if i < 0 then CHR ''-'' # show_nat (nat (- i)) else show_nat (nat i))"

text \<open>\<^verbatim>\<open>Number.prototype.toString\<close> on a number of the model: its decimal numeral.\<close>

definition number_toString :: "number \<Rightarrow> string" where
  "number_toString n = show_int (sint n)"

fun join_comma :: "string list \<Rightarrow> string" where
  "join_comma [] = []"
| "join_comma [x] = x"
| "join_comma (x # y # ys) = x @ '','' @ join_comma (y # ys)"

text \<open>
  \<^verbatim>\<open>String(v)\<close>, which a template literal \<^verbatim>\<open>`${v}`\<close> applies, and which
  \<^verbatim>\<open>v.toString()\<close> agrees with on every value that is not null or undefined.
\<close>

fun toStringJS :: "jsval \<Rightarrow> string" where
  "toStringJS JUndefined = ''undefined''"
| "toStringJS JNull = ''null''"
| "toStringJS (JBool b) = (if b then ''true'' else ''false'')"
| "toStringJS (JNum n) = number_toString n"
| "toStringJS JNaN = ''NaN''"
| "toStringJS (JStr s) = s"
| "toStringJS (JArr xs) =
     join_comma (map (\<lambda>x. if x = JNull \<or> x = JUndefined then [] else toStringJS x) xs)"
| "toStringJS (JObj kvs) = ''[object Object]''"

text \<open>
  Reading a property. \<^verbatim>\<open>v.k\<close> raises a TypeError on null and undefined (\<open>None\<close>
  here); \<^verbatim>\<open>v?.k\<close> gives undefined there. The keys the client reads are not
  properties of strings, numbers, booleans or arrays.
\<close>

fun getProp :: "jsval \<Rightarrow> string \<Rightarrow> jsval option" where
  "getProp JUndefined k = None"
| "getProp JNull k = None"
| "getProp (JObj kvs) k = Some (case map_of kvs k of None \<Rightarrow> JUndefined | Some v \<Rightarrow> v)"
| "getProp v k = Some JUndefined"

definition optProp :: "jsval \<Rightarrow> string \<Rightarrow> jsval" where
  "optProp v k = (case getProp v k of None \<Rightarrow> JUndefined | Some x \<Rightarrow> x)"

subsection \<open>Buffers and base64\<close>

text \<open>
  \<^verbatim>\<open>Buffer.from(s)\<close> encodes a string in UTF-8: a code unit below 128 is one byte,
  one from 128 to 255 is two.
\<close>

definition utf8_char :: "char \<Rightarrow> char list" where
  "utf8_char c =
     (let n = (of_char c :: nat)
      in if n < 128 then [c] else [char_of (192 + n div 64), char_of (128 + n mod 64)])"

definition utf8 :: "string \<Rightarrow> char list" where
  "utf8 s = concat (map utf8_char s)"

definition b64_digit :: "nat \<Rightarrow> char" where
  "b64_digit n =
     ''ABCDEFGHIJKLMNOPQRSTUVWXYZabcdefghijklmnopqrstuvwxyz0123456789+/'' ! (n mod 64)"

text \<open>\<^verbatim>\<open>buf.toString('base64')\<close>: the standard alphabet, padded.\<close>

fun base64 :: "char list \<Rightarrow> string" where
  "base64 [] = []"
| "base64 [a] =
     (let x = (of_char a :: nat)
      in [b64_digit (x div 4), b64_digit ((x mod 4) * 16), CHR ''='', CHR ''=''])"
| "base64 [a, b] =
     (let x = (of_char a :: nat); y = (of_char b :: nat)
      in [b64_digit (x div 4), b64_digit ((x mod 4) * 16 + y div 16),
          b64_digit ((y mod 16) * 4), CHR ''=''])"
| "base64 (a # b # c # rest) =
     (let x = (of_char a :: nat); y = (of_char b :: nat); z = (of_char c :: nat)
      in [b64_digit (x div 4), b64_digit ((x mod 4) * 16 + y div 16),
          b64_digit ((y mod 16) * 4 + z div 64), b64_digit (z mod 64)] @ base64 rest)"

section \<open>Phone number normalisation\<close>

text \<open>
  \<^verbatim>\<open>formatPhoneNumber\<close> (lines 113 to 129). The result is a string or null. Both
  arms of the conditional in the default case return \<^verbatim>\<open>numberStr\<close>.
\<close>

definition formatPhoneNumber :: "jsval \<Rightarrow> jsval" where
  "formatPhoneNumber phoneNumber =
     (if \<not> truthy phoneNumber then JNull
      else
        let numberStr = toStringJS phoneNumber;
            numberLength = length numberStr
        in if numberLength = 9 then JStr (''254'' @ numberStr)
           else if numberLength = 10 then JStr (''254'' @ drop 1 numberStr)
           else (if take 3 numberStr = ''254'' then JStr numberStr else JStr numberStr))"

section \<open>Configuration and construction\<close>

text \<open>
  The interface \<^verbatim>\<open>MpesaConfig\<close> (lines 660 to 674). A field that the caller did not
  supply is \<open>None\<close>; the constructor tests every field with \<^verbatim>\<open>!config[key]\<close>, which
  also holds of the empty string.
\<close>

record Credentials =
  passKey :: "string option"
  initiatorName :: "string option"
  initiatorPass :: "string option"

record AppInfo =
  consumerKey :: "string option"
  consumerSecret :: "string option"

record MpesaConfig =
  env :: "string option"
  requester :: "string option"
  shortCodeType :: "string option"
  businessShortCode :: "string option"
  credentials :: "Credentials option"
  appInfo :: "AppInfo option"

text \<open>The private fields of the class \<^verbatim>\<open>Mpesa\<close> (lines 9 to 21).\<close>

record Mpesa =
  m_environment :: string
  m_requester :: string
  m_timeStamp :: string
  m_shortCodeType :: string
  m_passKey :: string
  m_businessShortCode :: string
  m_baseUrl :: string
  m_consumerSecret :: string
  m_initiatorName :: string
  m_initiatorPass :: string
  m_consumerKey :: string
  m_shortCodePassword :: string
  m_securityCredential :: string

text \<open>
  An HTTP response as axios hands it over, and the errors the client raises or catches.
  \<^verbatim>\<open>MpesaException v\<close> is \<^verbatim>\<open>new MpesaException(v)\<close>; \<open>AxiosError\<close> is what axios
  rejects with, carrying the response when there was one; \<open>TypeError\<close> is a property
  read on null or undefined; \<open>SystemError\<close> is a failure of the file system or of
  OpenSSL.
\<close>

record AxiosResponse =
  r_data :: jsval
  r_status :: nat

datatype js_error =
    MpesaException jsval
  | AxiosError string "AxiosResponse option"
  | TypeError string
  | SystemError string

text \<open>
  Modelled from the spec: \<^verbatim>\<open>src/exceptions.ts\<close> is not among the sources. The spec
  has a single error kind carrying a human-readable message; \<^verbatim>\<open>MpesaException\<close> is
  taken to extend \<^verbatim>\<open>Error\<close> and to keep the message it was built with.
\<close>

fun message :: "js_error \<Rightarrow> jsval" where
  "message (MpesaException v) = v"
| "message (AxiosError m r) = JStr m"
| "message (TypeError m) = JStr m"
| "message (SystemError m) = JStr m"

text \<open>\<^verbatim>\<open>error.response?.data\<close>.\<close>

fun response_data :: "js_error \<Rightarrow> jsval" where
  "response_data (AxiosError m (Some r)) = r_data r"
| "response_data e = JUndefined"

text \<open>\<^verbatim>\<open>!config[key]\<close> is false: the field is there and is not the empty string.\<close>

fun given :: "string option \<Rightarrow> bool" where
  "given None = False"
| "given (Some s) = (s \<noteq> [])"

definition config_has :: "MpesaConfig \<Rightarrow> string \<Rightarrow> bool" where
  "config_has config key =
     (if key = ''env'' then given (env config)
      else if key = ''credentials'' then credentials config \<noteq> None
      else if key = ''appInfo'' then appInfo config \<noteq> None
      else if key = ''businessShortCode'' then given (businessShortCode config)
      else if key = ''shortCodeType'' then given (shortCodeType config)
      else if key = ''requester'' then given (requester config)
      else False)"

definition credentials_has :: "Credentials \<Rightarrow> string \<Rightarrow> bool" where
  "credentials_has cr key =
     (if key = ''passKey'' then given (passKey cr)
      else if key = ''initiatorPass'' then given (initiatorPass cr)
      else if key = ''initiatorName'' then given (initiatorName cr)
      else False)"

definition appInfo_has :: "AppInfo \<Rightarrow> string \<Rightarrow> bool" where
  "appInfo_has ai key =
     (if key = ''consumerKey'' then given (consumerKey ai)
      else if key = ''consumerSecret'' then given (consumerSecret ai)
      else False)"

text \<open>
  \<^verbatim>\<open>keys.forEach(key => { if (!has(key)) throw new MpesaException(prefix + key) })\<close>:
  the first key that fails the test ends the loop.
\<close>

fun forEach_required :: "(string \<Rightarrow> bool) \<Rightarrow> string \<Rightarrow> string list \<Rightarrow> js_error + unit" where
  "forEach_required has prefix [] = Inr ()"
| "forEach_required has prefix (key # keys) =
     (if \<not> has key then Inl (MpesaException (JStr (prefix @ key)))
      else forEach_required has prefix keys)"

definition requiredKeys :: "string list" where
  "requiredKeys =
     [''env'', ''credentials'', ''appInfo'', ''businessShortCode'', ''shortCodeType'', ''requester'']"

definition requiredCredentials :: "string list" where
  "requiredCredentials = [''passKey'', ''initiatorPass'', ''initiatorName'']"

definition requiredAppInfo :: "string list" where
  "requiredAppInfo = [''consumerKey'', ''consumerSecret'']"

text \<open>\<^verbatim>\<open>validateConfig\<close> (lines 43 to 64).\<close>

definition validateConfig :: "MpesaConfig \<Rightarrow> js_error + unit" where
  "validateConfig config =
     (case forEach_required (config_has config)
             ''Missing required configuration parameter: '' requiredKeys of
        Inl e \<Rightarrow> Inl e
      | Inr _ \<Rightarrow>
          (case credentials config of
             None \<Rightarrow> Inl (TypeError ''Cannot read properties of undefined (reading 'passKey')'')
           | Some cr \<Rightarrow>
               (case forEach_required (credentials_has cr)
                       ''Missing required credentials parameter: '' requiredCredentials of
                  Inl e \<Rightarrow> Inl e
                | Inr _ \<Rightarrow>
                    (case appInfo config of
                       None \<Rightarrow>
                         Inl (TypeError ''Cannot read properties of undefined (reading 'consumerKey')'')
                     | Some ai \<Rightarrow>
                         forEach_required (appInfo_has ai)
                           ''Missing required appInfo parameter: '' requiredAppInfo))))"

text \<open>
  What the constructor reads from outside the program: the clock, as the text of
  \<^verbatim>\<open>new Date().toISOString()\<close>, and the certificate files with OpenSSL's RSA
  encryption, as one function from the certificate's path and the plain bytes to the
  cipher bytes or to the message of the error raised.
\<close>

record platform =
  nowISO :: string
  publicEncrypt :: "string \<Rightarrow> char list \<Rightarrow> string + char list"

definition is_digit :: "char \<Rightarrow> bool" where
  "is_digit c = (c \<in> set ''0123456789'')"

text \<open>\<^verbatim>\<open>iso.replace(/[^0-9]/g, '').slice(0, 14)\<close> (line 28).\<close>

definition timeStampOf :: "string \<Rightarrow> string" where
  "timeStampOf isoText = take 14 (filter is_digit isoText)"

text \<open>\<^verbatim>\<open>generatePassword\<close> (lines 66 to 69).\<close>

definition generatePassword :: "Mpesa \<Rightarrow> string" where
  "generatePassword this =
     (let password = m_businessShortCode this @ m_passKey this @ m_timeStamp this
      in base64 (utf8 password))"

text \<open>\<^verbatim>\<open>generateSecurityCredential\<close> (lines 71 to 84).\<close>

definition generateSecurityCredential :: "platform \<Rightarrow> Mpesa \<Rightarrow> js_error + string" where
  "generateSecurityCredential pf this =
     (let certificatePath =
            (if m_environment this = ''production''
             then ''../Certificates/ProductionCertificate.cer''
             else ''../Certificates/SandboxCertificate.cer'')
      in case publicEncrypt pf certificatePath (utf8 (m_initiatorPass this)) of
           Inl msg \<Rightarrow> Inl (SystemError msg)
         | Inr cipher \<Rightarrow> Inr (base64 cipher))"

text \<open>
  The constructor (lines 23 to 41). After validation every field read is there; the
  two derived secrets are computed from the fields assigned before them.
\<close>

definition new_Mpesa :: "platform \<Rightarrow> MpesaConfig \<Rightarrow> js_error + Mpesa" where
  "new_Mpesa pf config =
     (case validateConfig config of
        Inl e \<Rightarrow> Inl e
      | Inr _ \<Rightarrow>
          (case (env config, requester config, shortCodeType config, businessShortCode config,
                 credentials config, appInfo config) of
             (Some e, Some rq, Some sct, Some bsc, Some cr, Some ai) \<Rightarrow>
               (case (passKey cr, initiatorName cr, initiatorPass cr,
                      consumerKey ai, consumerSecret ai) of
                  (Some pk, Some iname, Some ipass, Some ck, Some cs) \<Rightarrow>
                    (let this0 = \<lparr> m_environment = e, m_requester = rq,
                                   m_timeStamp = timeStampOf (nowISO pf),
                                   m_shortCodeType = sct, m_passKey = pk,
                                   m_businessShortCode = bsc,
                                   m_baseUrl = (if e = ''production''
                                                then ''https://api.safaricom.co.ke''
                                                else ''https://sandbox.safaricom.co.ke''),
                                   m_consumerSecret = cs, m_initiatorName = iname,
                                   m_initiatorPass = ipass, m_consumerKey = ck,
                                   m_shortCodePassword = [], m_securityCredential = [] \<rparr>;
                         this1 = this0 \<lparr> m_shortCodePassword := generatePassword this0 \<rparr>
                     in case generateSecurityCredential pf this1 of
                          Inl err \<Rightarrow> Inl err
                        | Inr sc \<Rightarrow> Inr (this1 \<lparr> m_securityCredential := sc \<rparr>))
                | _ \<Rightarrow> Inl (TypeError ''unreachable: a validated field is undefined''))
           | _ \<Rightarrow> Inl (TypeError ''unreachable: a validated field is undefined'')))"

section \<open>The network\<close>

text \<open>
  Every request the client makes goes through \<^verbatim>\<open>axios({method, url, headers, data})\<close>.
  The remote side answers a request with an HTTP response, or the transport fails. What
  it answers may depend on everything exchanged before, so the transport is a function
  of the exchanges so far, and the state of a run is the client object together with
  the list of exchanges. A request is recorded as the object handed to axios, its
  \<^verbatim>\<open>data\<close> before serialisation.
\<close>

datatype http_method = GET | POST

record request =
  rq_method :: http_method
  rq_url :: string
  rq_headers :: "(string \<times> string) list"
  rq_data :: jsval

datatype http_result =
    NetworkError string
  | HttpResponse nat jsval

type_synonym exchange = "request \<times> http_result"

type_synonym transport = "exchange list \<Rightarrow> request \<Rightarrow> http_result"

record world =
  self :: Mpesa
  wire :: "exchange list"

text \<open>
  The axios library is a dependency (\<^verbatim>\<open>axios ^1.7.9\<close> in package.json), not code of the
  repository. No call passes \<^verbatim>\<open>validateStatus\<close>, so its default applies: a response
  with a status from 200 to 299 resolves the promise, any other response rejects it
  with an error whose message is \<^verbatim>\<open>Request failed with status code N\<close> and whose
  \<^verbatim>\<open>response\<close> is the response; a transport failure rejects with an error that has
  no response.
\<close>

definition settle :: "http_result \<Rightarrow> js_error + AxiosResponse" where
  "settle res =
     (case res of
        NetworkError msg \<Rightarrow> Inl (AxiosError msg None)
      | HttpResponse st body \<Rightarrow>
          if 200 \<le> st \<and> st < 300 then Inr \<lparr> r_data = body, r_status = st \<rparr>
          else Inl (AxiosError (''Request failed with status code '' @ show_nat st)
                      (Some \<lparr> r_data = body, r_status = st \<rparr>)))"

definition axios :: "transport \<Rightarrow> request \<Rightarrow> world \<Rightarrow> (js_error + AxiosResponse) \<times> world" where
  "axios net rq s =
     (let res = net (wire s) rq
      in (settle res, s \<lparr> wire := wire s @ [(rq, res)] \<rparr>))"

section \<open>Token acquisition and dispatch\<close>

definition tokenRequest :: "Mpesa \<Rightarrow> request" where
  "tokenRequest this =
     (let url = m_baseUrl this @ ''/oauth/v1/generate?grant_type=client_credentials'';
          auth = base64 (utf8 (m_consumerKey this @ '':'' @ m_consumerSecret this))
      in \<lparr> rq_method = GET, rq_url = url,
           rq_headers = [(''Authorization'', ''Basic '' @ auth),
                         (''Content-Type'', ''application/json'')],
           rq_data = JUndefined \<rparr>)"

text \<open>
  The body of the \<^verbatim>\<open>try\<close> of \<^verbatim>\<open>generateAccessToken\<close> after the request has settled
  (lines 100 to 104): reading \<^verbatim>\<open>access_token\<close> of a null or undefined body is a
  TypeError (the message is V8's).
\<close>

definition readToken :: "js_error + AxiosResponse \<Rightarrow> js_error + jsval" where
  "readToken outcome =
     (case outcome of
        Inl e \<Rightarrow> Inl e
      | Inr response \<Rightarrow>
          (case getProp (r_data response) ''access_token'' of
             None \<Rightarrow>
               Inl (TypeError (''Cannot read properties of '' @ toStringJS (r_data response)
                                @ '' (reading 'access_token')''))
           | Some tok \<Rightarrow>
               if truthy tok then Inr tok
               else Inl (MpesaException (JStr ''Failed to generate access token''))))"

text \<open>
  The \<^verbatim>\<open>catch\<close> of \<^verbatim>\<open>generateAccessToken\<close> (lines 105 to 110). Everything caught
  here is an \<^verbatim>\<open>Error\<close>.
\<close>

definition tokenFailure :: "js_error \<Rightarrow> js_error" where
  "tokenFailure e =
     MpesaException (JStr (''Failed to generate access token: '' @ toStringJS (message e)))"

text \<open>\<^verbatim>\<open>generateAccessToken\<close> (lines 86 to 111).\<close>

definition generateAccessToken :: "transport \<Rightarrow> world \<Rightarrow> (js_error + jsval) \<times> world" where
  "generateAccessToken net s =
     (case axios net (tokenRequest (self s)) s of
        (outcome, s') \<Rightarrow>
          (case readToken outcome of
             Inl e \<Rightarrow> (Inl (tokenFailure e), s')
           | Inr tok \<Rightarrow> (Inr tok, s')))"

text \<open>The interface \<^verbatim>\<open>MpesaResponse\<close> (lines 676 to 679).\<close>

record MpesaResponse =
  response :: jsval
  httpCode :: nat

definition postRequest :: "Mpesa \<Rightarrow> string \<Rightarrow> jsval \<Rightarrow> jsval \<Rightarrow> request" where
  "postRequest this endpoint accessToken payload =
     \<lparr> rq_method = POST, rq_url = m_baseUrl this @ ''/'' @ endpoint,
       rq_headers = [(''Content-Type'', ''application/json''),
                     (''Authorization'', ''Bearer '' @ toStringJS accessToken)],
       rq_data = payload \<rparr>"

text \<open>The \<^verbatim>\<open>catch\<close> of \<^verbatim>\<open>sendRequest\<close> (lines 149 to 155).\<close>

definition requestFailure :: "js_error \<Rightarrow> js_error" where
  "requestFailure e =
     MpesaException
       (orJS (optProp (response_data e) ''errorMessage'')
          (orJS (optProp (response_data e) ''ResponseDescription'') (message e)))"

text \<open>\<^verbatim>\<open>sendRequest\<close> (lines 131 to 156).\<close>

definition sendRequest ::
  "transport \<Rightarrow> string \<Rightarrow> jsval \<Rightarrow> world \<Rightarrow> (js_error + MpesaResponse) \<times> world" where
  "sendRequest net endpoint payload s =
     (case generateAccessToken net s of
        (Inl e, s1) \<Rightarrow> (Inl (requestFailure e), s1)
      | (Inr accessToken, s1) \<Rightarrow>
          (case axios net (postRequest (self s1) endpoint accessToken payload) s1 of
             (Inl e, s2) \<Rightarrow> (Inl (requestFailure e), s2)
           | (Inr r, s2) \<Rightarrow> (Inr \<lparr> response = r_data r, httpCode = r_status r \<rparr>, s2)))"

text \<open>
  The check every method makes on what \<^verbatim>\<open>sendRequest\<close> returned (lines 191 to 203,
  and again after each dispatch): an error of the dispatch propagates. The body is
  truthy where its properties are read, so these reads cannot raise.
\<close>

definition unwrap :: "(js_error + MpesaResponse) \<times> world \<Rightarrow> (js_error + jsval) \<times> world" where
  "unwrap out =
     (case out of
        (Inl e, s) \<Rightarrow> (Inl e, s)
      | (Inr r, s) \<Rightarrow>
          if \<not> truthy (response r) then (Inl (MpesaException (JStr ''No response received'')), s)
          else if httpCode r \<noteq> 200 then
            (Inl (MpesaException
                    (orJS (optProp (response r) ''ResponseMessage'')
                       (orJS (optProp (response r) ''errorMessage'')
                          (JStr (''Request failed with status '' @ show_nat (httpCode r)))))), s)
          else (Inr (response r), s))"

text \<open>
  The same check as \<^verbatim>\<open>initiateB2BExpressCheckout\<close> and \<^verbatim>\<open>mpesaRatiba\<close> make it
  (lines 593 to 604 and 644 to 655): \<^verbatim>\<open>ResponseMessage\<close> is not read.
\<close>

definition unwrap_em :: "(js_error + MpesaResponse) \<times> world \<Rightarrow> (js_error + jsval) \<times> world" where
  "unwrap_em out =
     (case out of
        (Inl e, s) \<Rightarrow> (Inl e, s)
      | (Inr r, s) \<Rightarrow>
          if \<not> truthy (response r) then (Inl (MpesaException (JStr ''No response received'')), s)
          else if httpCode r \<noteq> 200 then
            (Inl (MpesaException
                    (orJS (optProp (response r) ''errorMessage'')
                       (JStr (''Request failed with status '' @ show_nat (httpCode r))))), s)
          else (Inr (response r), s))"

definition throw :: "string \<Rightarrow> world \<Rightarrow> (js_error + jsval) \<times> world" where
  "throw msg s = (Inl (MpesaException (JStr msg)), s)"

section \<open>The public methods\<close>

text \<open>
  Each method takes its arguments as the caller passed them (\<open>JUndefined\<close> for an
  argument left out) and the state, and returns the value the promise resolves with or
  the error it rejects with, and the state after it.
\<close>

text \<open>\<^verbatim>\<open>queryOrgInfo\<close> (lines 206 to 240).\<close>

definition queryOrgInfo ::
  "transport \<Rightarrow> jsval \<Rightarrow> jsval \<Rightarrow> world \<Rightarrow> (js_error + jsval) \<times> world" where
  "queryOrgInfo net type shortCode s =
     (if type = JStr ''till'' then
        unwrap (sendRequest net ''sfcverify/v1/query/info''
                  (JObj [(''IdentifierType'', JNum 2), (''Identifier'', shortCode)]) s)
      else if type = JStr ''paybill'' then
        unwrap (sendRequest net ''sfcverify/v1/query/info''
                  (JObj [(''IdentifierType'', JNum 4), (''Identifier'', shortCode)]) s)
      else throw ''Identifier type is not supported'' s)"

text \<open>\<^verbatim>\<open>getBusinessName\<close> (lines 158 to 161).\<close>

definition getBusinessName :: "transport \<Rightarrow> world \<Rightarrow> (js_error + jsval) \<times> world" where
  "getBusinessName net s =
     (case queryOrgInfo net (JStr (m_shortCodeType (self s)))
             (JStr (m_businessShortCode (self s))) s of
        (Inl e, s') \<Rightarrow> (Inl e, s')
      | (Inr orgInfo, s') \<Rightarrow>
          (case getProp orgInfo ''OrganizationName'' of
             None \<Rightarrow>
               (Inl (TypeError (''Cannot read properties of '' @ toStringJS orgInfo
                                 @ '' (reading 'OrganizationName')'')), s')
           | Some name \<Rightarrow> (Inr name, s')))"

text \<open>\<^verbatim>\<open>stkPush\<close> (lines 163 to 204).\<close>

definition stkPush ::
  "transport \<Rightarrow> jsval \<Rightarrow> jsval \<Rightarrow> jsval \<Rightarrow> jsval \<Rightarrow> jsval \<Rightarrow> world
     \<Rightarrow> (js_error + jsval) \<times> world" where
  "stkPush net amount phoneNumber accountNumber callBackUrl description0 s =
     (let description = dflt description0 (JStr ''STK Push Request'')
      in if \<not> truthy phoneNumber then throw ''Phone number is required'' s
         else if \<not> truthy amount then throw ''Amount is required'' s
         else if \<not> truthy accountNumber then throw ''Account Number is required'' s
         else if \<not> truthy callBackUrl then throw ''Callback url is required'' s
         else
           let formattedPhone = formatPhoneNumber phoneNumber
           in unwrap (sendRequest net ''mpesa/stkpush/v1/processrequest''
                (JObj [(''Amount'', amount),
                       (''PartyA'', formattedPhone),
                       (''CallBackURL'', callBackUrl),
                       (''Timestamp'', JStr (m_timeStamp (self s))),
                       (''TransactionDesc'', description),
                       (''PhoneNumber'', formattedPhone),
                       (''PartyB'', JStr (m_businessShortCode (self s))),
                       (''AccountReference'', accountNumber),
                       (''TransactionType'', JStr ''CustomerPayBillOnline''),
                       (''BusinessShortCode'', JStr (m_businessShortCode (self s))),
                       (''Password'', JStr (m_shortCodePassword (self s)))]) s))"

text \<open>
  \<^verbatim>\<open>generateQRCode\<close> (lines 242 to 271). The payload is built before the dispatch:
  \<^verbatim>\<open>await this.getBusinessName()\<close> runs first, with its own token fetch and request,
  and its error ends the method; the rest of the payload is read from the client,
  which no method changes, so it is read here from the state after that call.
\<close>

definition generateQRCode ::
  "transport \<Rightarrow> jsval \<Rightarrow> jsval \<Rightarrow> jsval \<Rightarrow> world \<Rightarrow> (js_error + jsval) \<times> world" where
  "generateQRCode net amount accountNumber size0 s =
     (let size = dflt size0 (JNum 300)
      in if \<not> truthy amount then throw ''Amount is required'' s
         else
           (case getBusinessName net s of
              (Inl e, s') \<Rightarrow> (Inl e, s')
            | (Inr merchantName, s') \<Rightarrow>
                unwrap (sendRequest net ''mpesa/qrcode/v1/generate''
                  (JObj [(''MerchantName'', merchantName),
                         (''RefNo'', accountNumber),
                         (''Amount'', amount),
                         (''TrxCode'', JStr (if m_shortCodeType (self s') = ''paybill''
                                             then ''PB'' else ''BG'')),
                         (''CPI'', JStr (m_businessShortCode (self s'))),
                         (''Size'', size)]) s')))"

text \<open>\<^verbatim>\<open>stkPushQuery\<close> (lines 273 to 298).\<close>

definition stkPushQuery :: "transport \<Rightarrow> jsval \<Rightarrow> world \<Rightarrow> (js_error + jsval) \<times> world" where
  "stkPushQuery net checkoutRequestCode s =
     (if \<not> truthy checkoutRequestCode then throw ''Checkout request code is required'' s
      else unwrap (sendRequest net ''mpesa/stkpushquery/v1/query''
             (JObj [(''BusinessShortCode'', JStr (m_businessShortCode (self s))),
                    (''Password'', JStr (m_shortCodePassword (self s))),
                    (''Timestamp'', JStr (m_timeStamp (self s))),
                    (''CheckoutRequestID'', checkoutRequestCode)]) s))"

text \<open>\<^verbatim>\<open>registerUrl\<close> (lines 300 to 328).\<close>

definition registerUrl ::
  "transport \<Rightarrow> jsval \<Rightarrow> jsval \<Rightarrow> jsval \<Rightarrow> world \<Rightarrow> (js_error + jsval) \<times> world" where
  "registerUrl net responseType confirmationUrl validationUrl s =
     (if \<not> truthy confirmationUrl then throw ''Confirmation url is required'' s
      else if \<not> truthy validationUrl then throw ''Validation url is required'' s
      else unwrap (sendRequest net ''mpesa/c2b/v2/registerurl''
             (JObj [(''ShortCode'', JStr (m_businessShortCode (self s))),
                    (''ResponseType'', responseType),
                    (''ConfirmationURL'', confirmationUrl),
                    (''ValidationURL'', validationUrl)]) s))"

text \<open>\<^verbatim>\<open>initiateB2C\<close> (lines 330 to 368).\<close>

definition initiateB2C ::
  "transport \<Rightarrow> jsval \<Rightarrow> jsval \<Rightarrow> jsval \<Rightarrow> jsval \<Rightarrow> jsval \<Rightarrow> jsval \<Rightarrow> world
     \<Rightarrow> (js_error + jsval) \<times> world" where
  "initiateB2C net amount phoneNumber commandID resultUrl queueTimeoutUrl0 remarks0 s =
     (let queueTimeoutUrl = dflt queueTimeoutUrl0 JNull;
          remarks = dflt remarks0 (JStr ''Business Payment'')
      in if \<not> truthy amount then throw ''Amount is required'' s
         else if \<not> truthy phoneNumber then throw ''Phone number is required'' s
         else if \<not> truthy resultUrl then throw ''Result URL is required'' s
         else unwrap (sendRequest net ''mpesa/b2c/v1/paymentrequest''
                (JObj [(''InitiatorName'', JStr (m_initiatorName (self s))),
                       (''SecurityCredential'', JStr (m_securityCredential (self s))),
                       (''CommandID'', commandID),
                       (''Amount'', amount),
                       (''PartyA'', JStr (m_businessShortCode (self s))),
                       (''PartyB'', formatPhoneNumber phoneNumber),
                       (''Remarks'', remarks),
                       (''QueueTimeOutURL'', orJS queueTimeoutUrl resultUrl),
                       (''ResultURL'', resultUrl),
                       (''Occasion'', JStr [])]) s))"

text \<open>\<^verbatim>\<open>transactionStatus\<close> (lines 370 to 404).\<close>

definition transactionStatus ::
  "transport \<Rightarrow> jsval \<Rightarrow> jsval \<Rightarrow> jsval \<Rightarrow> world \<Rightarrow> (js_error + jsval) \<times> world" where
  "transactionStatus net transactionID resultUrl queueTimeoutUrl0 s =
     (let queueTimeoutUrl = dflt queueTimeoutUrl0 JNull
      in if \<not> truthy transactionID then throw ''Transaction ID is required'' s
         else if \<not> truthy resultUrl then throw ''Result Url is required'' s
         else unwrap (sendRequest net ''mpesa/transactionstatus/v1/query''
                (JObj [(''Initiator'', JStr (m_initiatorName (self s))),
                       (''SecurityCredential'', JStr (m_securityCredential (self s))),
                       (''CommandID'', JStr ''TransactionStatusQuery''),
                       (''TransactionID'', transactionID),
                       (''PartyA'', JStr (m_businessShortCode (self s))),
                       (''IdentifierType'', JStr (if m_shortCodeType (self s) = ''paybill''
                                                  then ''4'' else ''2'')),
                       (''ResultURL'', resultUrl),
                       (''QueueTimeOutURL'', orJS queueTimeoutUrl resultUrl),
                       (''Remarks'', JStr ''Transaction Status Query''),
                       (''Occasion'', JStr [])]) s))"

text \<open>\<^verbatim>\<open>accountBalance\<close> (lines 406 to 437).\<close>

definition accountBalance ::
  "transport \<Rightarrow> jsval \<Rightarrow> jsval \<Rightarrow> world \<Rightarrow> (js_error + jsval) \<times> world" where
  "accountBalance net resultUrl queueTimeoutUrl0 s =
     (let queueTimeoutUrl = dflt queueTimeoutUrl0 JNull
      in if \<not> truthy resultUrl then throw ''Result Url is required'' s
         else unwrap (sendRequest net ''mpesa/accountbalance/v1/query''
                (JObj [(''Initiator'', JStr (m_initiatorName (self s))),
                       (''SecurityCredential'', JStr (m_securityCredential (self s))),
                       (''CommandID'', JStr ''AccountBalance''),
                       (''PartyA'', JStr (m_businessShortCode (self s))),
                       (''IdentifierType'', JStr (if m_shortCodeType (self s) = ''paybill''
                                                  then ''4'' else ''2'')),
                       (''ResultURL'', resultUrl),
                       (''QueueTimeOutURL'', orJS queueTimeoutUrl resultUrl),
                       (''Remarks'', JStr ''Account Balance Query''),
                       (''Occasion'', JStr [])]) s))"

text \<open>\<^verbatim>\<open>reverseTransaction\<close> (lines 439 to 476).\<close>

definition reverseTransaction ::
  "transport \<Rightarrow> jsval \<Rightarrow> jsval \<Rightarrow> jsval \<Rightarrow> jsval \<Rightarrow> world \<Rightarrow> (js_error + jsval) \<times> world" where
  "reverseTransaction net amount transactionID resultUrl queueTimeoutUrl0 s =
     (let queueTimeoutUrl = dflt queueTimeoutUrl0 JNull
      in if \<not> truthy transactionID then throw ''Transaction ID is required'' s
         else if \<not> truthy amount then throw ''Amount is required'' s
         else if \<not> truthy resultUrl then throw ''Result Url is required'' s
         else unwrap (sendRequest net ''mpesa/reversal/v1/request''
                (JObj [(''Initiator'', JStr (m_initiatorName (self s))),
                       (''SecurityCredential'', JStr (m_securityCredential (self s))),
                       (''CommandID'', JStr ''TransactionReversal''),
                       (''TransactionID'', transactionID),
                       (''Amount'', amount),
                       (''ReceiverParty'', JStr (m_businessShortCode (self s))),
                       (''RecieverIdentifierType'', JStr ''11''),
                       (''ResultURL'', resultUrl),
                       (''QueueTimeOutURL'', orJS queueTimeoutUrl resultUrl),
                       (''Remarks'', JStr ''Transaction Reversal''),
                       (''Occasion'', JStr [])]) s))"

text \<open>\<^verbatim>\<open>taxRemittance\<close> (lines 478 to 516).\<close>

definition taxRemittance ::
  "transport \<Rightarrow> jsval \<Rightarrow> jsval \<Rightarrow> jsval \<Rightarrow> jsval \<Rightarrow> world \<Rightarrow> (js_error + jsval) \<times> world" where
  "taxRemittance net amount paymentRegistrationNo resultUrl queueTimeoutUrl0 s =
     (let queueTimeoutUrl = dflt queueTimeoutUrl0 JNull
      in if \<not> truthy paymentRegistrationNo then throw ''Payment Registration No is required'' s
         else if \<not> truthy amount then throw ''Amount is required'' s
         else if \<not> truthy resultUrl then throw ''Result Url is required'' s
         else unwrap (sendRequest net ''mpesa/b2b/v1/remittax''
                (JObj [(''Initiator'', JStr (m_initiatorName (self s))),
                       (''SecurityCredential'', JStr (m_securityCredential (self s))),
                       (''CommandID'', JStr ''PayTaxToKRA''),
                       (''SenderIdentifierType'', JStr ''4''),
                       (''RecieverIdentifierType'', JStr ''4''),
                       (''Amount'', amount),
                       (''PartyA'', JStr (m_businessShortCode (self s))),
                       (''PartyB'', JStr ''572572''),
                       (''AccountReference'', paymentRegistrationNo),
                       (''Remarks'', JStr ''Tax Remittance''),
                       (''QueueTimeOutURL'', orJS queueTimeoutUrl resultUrl),
                       (''ResultURL'', resultUrl)]) s))"

text \<open>
  The lookup table of \<^verbatim>\<open>initiateB2B\<close> (lines 530 to 534), read with
  \<^verbatim>\<open>commandID[paymentType]\<close>: a key that is not an own property gives undefined
  (the properties every object inherits are left out).
\<close>

definition commandID_table :: "(string \<times> jsval) list" where
  "commandID_table =
     [(''PaybillToPaybill'', JStr ''BusinessPayBill''),
      (''PaybillToTill'', JStr ''BusinessBuyGoods''),
      (''B2BAccountTopUp'', JStr ''BusinessPayToBulk'')]"

text \<open>\<^verbatim>\<open>initiateB2B\<close> (lines 518 to 565).\<close>

definition initiateB2B ::
  "transport \<Rightarrow> jsval \<Rightarrow> jsval \<Rightarrow> jsval \<Rightarrow> jsval \<Rightarrow> jsval \<Rightarrow> jsval \<Rightarrow> world
     \<Rightarrow> (js_error + jsval) \<times> world" where
  "initiateB2B net amount paymentType shortCode accountNumber resultUrl queueTimeoutUrl0 s =
     (let queueTimeoutUrl = dflt queueTimeoutUrl0 JNull
      in if \<not> truthy shortCode then throw ''Short code is required'' s
         else if \<not> truthy amount then throw ''Amount is required'' s
         else if \<not> truthy resultUrl then throw ''Result Url is required'' s
         else unwrap (sendRequest net ''mpesa/b2b/v1/paymentrequest''
                (JObj [(''Initiator'', JStr (m_initiatorName (self s))),
                       (''SecurityCredential'', JStr (m_securityCredential (self s))),
                       (''CommandID'', optProp (JObj commandID_table) (toStringJS paymentType)),
                       (''SenderIdentifierType'', JStr ''4''),
                       (''RecieverIdentifierType'', JStr ''4''),
                       (''Amount'', amount),
                       (''PartyA'', JStr (m_businessShortCode (self s))),
                       (''PartyB'', shortCode),
                       (''AccountReference'', accountNumber),
                       (''Requester'', JStr (m_requester (self s))),
                       (''Remarks'', JStr ''OK''),
                       (''QueueTimeOutURL'', orJS queueTimeoutUrl resultUrl),
                       (''ResultURL'', resultUrl)]) s))"

text \<open>
  What \<^verbatim>\<open>initiateB2BExpressCheckout\<close> reads from outside the program (lines 580 and
  581): \<^verbatim>\<open>Date.now()\<close>, a number of milliseconds, and the text of
  \<^verbatim>\<open>Math.random().toString(36)\<close>, twice each.
\<close>

record entropy =
  now1 :: number
  random1 :: string
  now2 :: number
  random2 :: string

text \<open>\<^verbatim>\<open>initiateB2BExpressCheckout\<close> (lines 567 to 605).\<close>

definition initiateB2BExpressCheckout ::
  "transport \<Rightarrow> entropy \<Rightarrow> jsval \<Rightarrow> jsval \<Rightarrow> jsval \<Rightarrow> jsval \<Rightarrow> jsval \<Rightarrow> jsval \<Rightarrow> world
     \<Rightarrow> (js_error + jsval) \<times> world" where
  "initiateB2BExpressCheckout net en amount receiverShortCode callBackUrl partnerName
       paymentRef0 requestRef0 s =
     (let paymentRef = dflt paymentRef0 JNull;
          requestRef = dflt requestRef0 JNull
      in if \<not> truthy amount then throw ''Amount is required'' s
         else if \<not> truthy receiverShortCode then throw ''Short code is required'' s
         else if \<not> truthy partnerName then throw ''Partner Name is required'' s
         else if \<not> truthy callBackUrl then throw ''Callback Url is required'' s
         else
           let requestRefID =
                 ''B2B_'' @ number_toString (now1 en) @ ''_'' @ take 9 (drop 2 (random1 en));
               paymentRefID =
                 ''PAYREFID_'' @ number_toString (now2 en) @ ''_'' @ take 9 (drop 2 (random2 en))
           in unwrap_em (sendRequest net ''v1/ussdpush/get-msisdn''
                (JObj [(''PrimaryPartyCode'', JStr (m_businessShortCode (self s))),
                       (''ReceiverPartyCode'', receiverShortCode),
                       (''Amount'', amount),
                       (''CallBackUrl'', callBackUrl),
                       (''RequestRefID'', orJS requestRef (JStr requestRefID)),
                       (''PaymentRef'', orJS paymentRef (JStr paymentRefID)),
                       (''PartnerName'', partnerName)]) s))"

text \<open>\<^verbatim>\<open>mpesaRatiba\<close> (lines 607 to 656).\<close>

definition mpesaRatiba ::
  "transport \<Rightarrow> jsval \<Rightarrow> jsval \<Rightarrow> jsval \<Rightarrow> jsval \<Rightarrow> jsval \<Rightarrow> jsval \<Rightarrow> jsval \<Rightarrow> jsval \<Rightarrow> world
     \<Rightarrow> (js_error + jsval) \<times> world" where
  "mpesaRatiba net amount phoneNumber accountReference startDate endDate standingOrderName
       callBackUrl frequency0 s =
     (let frequency = dflt frequency0 (JStr ''2'')
      in if \<not> truthy amount then throw ''Amount is required'' s
         else if \<not> truthy phoneNumber then throw ''Phone number is required'' s
         else if \<not> truthy accountReference then throw ''Account reference is required'' s
         else if \<not> truthy callBackUrl then throw ''Callback Url is required'' s
         else if \<not> truthy startDate then throw ''Start Date is required'' s
         else if \<not> truthy endDate then throw ''End Date is required'' s
         else if \<not> truthy standingOrderName then throw ''Standing Order Name is required'' s
         else unwrap_em (sendRequest net ''mpesa/standingorders/v1/create''
                (JObj [(''StandingOrderName'', standingOrderName),
                       (''StartDate'', startDate),
                       (''EndDate'', endDate),
                       (''BusinessShortCode'', JStr (m_businessShortCode (self s))),
                       (''TransactionType'',
                          JStr (if m_shortCodeType (self s) = ''paybill''
                                then ''Standing Order Customer Pay Bill''
                                else ''Standing Order Customer Pay Marchant'')),
                       (''ReceiverPartyIdentifierType'',
                          JStr (if m_shortCodeType (self s) = ''paybill'' then ''4'' else ''2'')),
                       (''Amount'', amount),
                       (''PartyA'', formatPhoneNumber phoneNumber),
                       (''CallBackURL'', callBackUrl),
                       (''AccountReference'', accountReference),
                       (''TransactionDesc'', JStr (''Payment to '' @ m_businessShortCode (self s))),
                       (''Frequency'', frequency),
                       (''Password'', JStr (m_shortCodePassword (self s))),
                       (''Timestamp'', JStr (m_timeStamp (self s)))]) s))"

section \<open>Calls\<close>

text \<open>
  A call of one of the fourteen public methods with its arguments. The first thirteen
  are the business operations; \<^verbatim>\<open>getBusinessName\<close> is the convenience method on
  top of \<^verbatim>\<open>queryOrgInfo\<close>.
\<close>

datatype call =
    StkPush jsval jsval jsval jsval jsval
  | QueryOrgInfo jsval jsval
  | GenerateQRCode jsval jsval jsval
  | StkPushQuery jsval
  | RegisterUrl jsval jsval jsval
  | InitiateB2C jsval jsval jsval jsval jsval jsval
  | TransactionStatus jsval jsval jsval
  | AccountBalance jsval jsval
  | ReverseTransaction jsval jsval jsval jsval
  | TaxRemittance jsval jsval jsval jsval
  | InitiateB2B jsval jsval jsval jsval jsval jsval
  | InitiateB2BExpressCheckout entropy jsval jsval jsval jsval jsval jsval
  | MpesaRatiba jsval jsval jsval jsval jsval jsval jsval jsval
  | GetBusinessName

fun invoke :: "transport \<Rightarrow> call \<Rightarrow> world \<Rightarrow> (js_error + jsval) \<times> world" where
  "invoke net (StkPush a p acc cb d) s = stkPush net a p acc cb d s"
| "invoke net (QueryOrgInfo t sc) s = queryOrgInfo net t sc s"
| "invoke net (GenerateQRCode a acc sz) s = generateQRCode net a acc sz s"
| "invoke net (StkPushQuery c) s = stkPushQuery net c s"
| "invoke net (RegisterUrl rt cu vu) s = registerUrl net rt cu vu s"
| "invoke net (InitiateB2C a p cmd ru qu rm) s = initiateB2C net a p cmd ru qu rm s"
| "invoke net (TransactionStatus t ru qu) s = transactionStatus net t ru qu s"
| "invoke net (AccountBalance ru qu) s = accountBalance net ru qu s"
| "invoke net (ReverseTransaction a t ru qu) s = reverseTransaction net a t ru qu s"
| "invoke net (TaxRemittance a prn ru qu) s = taxRemittance net a prn ru qu s"
| "invoke net (InitiateB2B a pt sc acc ru qu) s = initiateB2B net a pt sc acc ru qu s"
| "invoke net (InitiateB2BExpressCheckout en a rsc cb pn pr rr) s =
     initiateB2BExpressCheckout net en a rsc cb pn pr rr s"
| "invoke net (MpesaRatiba a p ar sd ed son cb f) s = mpesaRatiba net a p ar sd ed son cb f s"
| "invoke net GetBusinessName s = getBusinessName net s"

text \<open>A sequence of calls on one client, one after the other; an error ends one call only.\<close>

fun run :: "transport \<Rightarrow> call list \<Rightarrow> world \<Rightarrow> (js_error + jsval) list \<times> world" where
  "run net [] s = ([], s)"
| "run net (c # cs) s =
     (case invoke net c s of
        (r, s') \<Rightarrow> (case run net cs s' of (rs, s'') \<Rightarrow> (r # rs, s'')))"

section \<open>Vocabulary of the statements\<close>

text \<open>
  The required fields of a configuration in the order \<^verbatim>\<open>validateConfig\<close> visits them:
  the word the error message uses for the group, the name of the field, and whether the
  field is there and not empty. A field of a group that is itself absent counts as
  absent.
\<close>

definition required_fields :: "MpesaConfig \<Rightarrow> (string \<times> string \<times> bool) list" where
  "required_fields config =
     [(''configuration'', ''env'', given (env config)),
      (''configuration'', ''credentials'', credentials config \<noteq> None),
      (''configuration'', ''appInfo'', appInfo config \<noteq> None),
      (''configuration'', ''businessShortCode'', given (businessShortCode config)),
      (''configuration'', ''shortCodeType'', given (shortCodeType config)),
      (''configuration'', ''requester'', given (requester config)),
      (''credentials'', ''passKey'',
         (case credentials config of None \<Rightarrow> False | Some cr \<Rightarrow> given (passKey cr))),
      (''credentials'', ''initiatorPass'',
         (case credentials config of None \<Rightarrow> False | Some cr \<Rightarrow> given (initiatorPass cr))),
      (''credentials'', ''initiatorName'',
         (case credentials config of None \<Rightarrow> False | Some cr \<Rightarrow> given (initiatorName cr))),
      (''appInfo'', ''consumerKey'',
         (case appInfo config of None \<Rightarrow> False | Some ai \<Rightarrow> given (consumerKey ai))),
      (''appInfo'', ''consumerSecret'',
         (case appInfo config of None \<Rightarrow> False | Some ai \<Rightarrow> given (consumerSecret ai)))]"

definition first_missing :: "MpesaConfig \<Rightarrow> (string \<times> string) option" where
  "first_missing config =
     (case find (\<lambda>(kind, key, ok). \<not> ok) (required_fields config) of
        None \<Rightarrow> None
      | Some (kind, key, ok) \<Rightarrow> Some (kind, key))"

definition certificatePathOf :: "string \<Rightarrow> string" where
  "certificatePathOf e =
     (if e = ''production'' then ''../Certificates/ProductionCertificate.cer''
      else ''../Certificates/SandboxCertificate.cer'')"

text \<open>
  What a method makes of the answer to its business request: \<open>post_outcome\<close> is what
  \<^verbatim>\<open>sendRequest\<close> returns or raises for it, \<open>judge\<close> the check of the method on that,
  in the variant that never reads \<^verbatim>\<open>ResponseMessage\<close> (\<open>em\<close>) or in the usual one.
\<close>

definition post_outcome :: "http_result \<Rightarrow> js_error + MpesaResponse" where
  "post_outcome b =
     (case settle b of
        Inl e \<Rightarrow> Inl (requestFailure e)
      | Inr r \<Rightarrow> Inr \<lparr> response = r_data r, httpCode = r_status r \<rparr>)"

definition judge :: "bool \<Rightarrow> js_error + MpesaResponse \<Rightarrow> js_error + jsval" where
  "judge em x =
     (case x of
        Inl e \<Rightarrow> Inl e
      | Inr r \<Rightarrow>
          if \<not> truthy (response r) then Inl (MpesaException (JStr ''No response received''))
          else if httpCode r \<noteq> 200 then
            Inl (MpesaException
                   (if em then
                      orJS (optProp (response r) ''errorMessage'')
                        (JStr (''Request failed with status '' @ show_nat (httpCode r)))
                    else
                      orJS (optProp (response r) ''ResponseMessage'')
                        (orJS (optProp (response r) ''errorMessage'')
                           (JStr (''Request failed with status '' @ show_nat (httpCode r))))))
          else Inr (response r))"

definition finish ::
  "bool \<Rightarrow> (js_error + MpesaResponse) \<times> world \<Rightarrow> (js_error + jsval) \<times> world" where
  "finish em = (if em then unwrap_em else unwrap)"

definition errorMessageOnly :: "call \<Rightarrow> bool" where
  "errorMessageOnly c =
     (case c of
        InitiateB2BExpressCheckout en a rsc cb pn pr rr \<Rightarrow> True
      | MpesaRatiba a p ar sd ed son cb f \<Rightarrow> True
      | _ \<Rightarrow> False)"

text \<open>
  The endpoints of \<^verbatim>\<open>stkPush\<close>, \<^verbatim>\<open>stkPushQuery\<close> and \<^verbatim>\<open>mpesaRatiba\<close>, whose payloads
  carry the timestamp and the password, and what it is for a payload to carry the
  client's own.
\<close>

definition stamped_endpoints :: "string list" where
  "stamped_endpoints =
     [''mpesa/stkpush/v1/processrequest'', ''mpesa/stkpushquery/v1/query'',
      ''mpesa/standingorders/v1/create'']"

definition carries_secrets :: "Mpesa \<Rightarrow> jsval \<Rightarrow> bool" where
  "carries_secrets this payload =
     (optProp payload ''Timestamp'' = JStr (m_timeStamp this) \<and>
      optProp payload ''Password'' = JStr (m_shortCodePassword this))"

definition stamped :: "Mpesa \<Rightarrow> string \<Rightarrow> jsval \<Rightarrow> bool" where
  "stamped this ep payload = (ep \<in> set stamped_endpoints \<longrightarrow> carries_secrets this payload)"

definition stamped_exchange :: "Mpesa \<Rightarrow> exchange \<Rightarrow> bool" where
  "stamped_exchange this x =
     (rq_url (fst x) \<in> set (map (\<lambda>ep. m_baseUrl this @ ''/'' @ ep) stamped_endpoints)
        \<longrightarrow> carries_secrets this (rq_data (fst x)))"

text \<open>
  A call that ends before any request (\<open>throw\<close>) or makes one dispatch (\<open>shaped\<close>);
  \<open>step_ok\<close> is what one dispatch from a state leaves: the token request and, when the
  token came, the business request, with the result read off the answers.
\<close>

definition shaped :: "transport \<Rightarrow> bool \<Rightarrow> world \<Rightarrow> (js_error + jsval) \<times> world \<Rightarrow> bool" where
  "shaped net em s out =
     ((\<exists>msg. out = throw msg s) \<or>
      (\<exists>ep pl. stamped (self s) ep pl \<and> out = finish em (sendRequest net ep pl s)))"

definition step_ok :: "transport \<Rightarrow> bool \<Rightarrow> world \<Rightarrow> (js_error + jsval) \<times> world \<Rightarrow> bool" where
  "step_ok net em s out =
     (self (snd out) = self s \<and>
      (let T = tokenRequest (self s); a = net (wire s) T
       in case readToken (settle a) of
            Inl e \<Rightarrow> wire (snd out) = wire s @ [(T, a)] \<and> fst out = Inl (tokenFailure e)
          | Inr tok \<Rightarrow>
              (\<exists>ep pl b. stamped (self s) ep pl \<and>
                 b = net (wire s @ [(T, a)]) (postRequest (self s) ep tok pl) \<and>
                 wire (snd out) = wire s @ [(T, a), (postRequest (self s) ep tok pl, b)] \<and>
                 fst out = judge em (post_outcome b))))"

text \<open>
  The rule for token requests in the exchanges a call adds: one that failed is the last
  exchange, and the call fails with its error.
\<close>

definition token_rule :: "exchange list \<Rightarrow> js_error + jsval \<Rightarrow> bool" where
  "token_rule new r =
     (\<forall>i<length new. \<forall>e.
        rq_method (fst (new ! i)) = GET \<and> readToken (settle (snd (new ! i))) = Inl e \<longrightarrow>
        Suc i = length new \<and> r = Inl (tokenFailure e))"

text \<open>
  The arguments each method tests with \<^verbatim>\<open>if (!arg) throw new MpesaException(msg)\<close>,
  in the order of the tests, each with its message.
\<close>

fun required_checks :: "call \<Rightarrow> (jsval \<times> string) list" where
  "required_checks (StkPush a p acc cb d) =
     [(p, ''Phone number is required''), (a, ''Amount is required''),
      (acc, ''Account Number is required''), (cb, ''Callback url is required'')]"
| "required_checks (QueryOrgInfo t sc) = []"
| "required_checks (GenerateQRCode a acc sz) = [(a, ''Amount is required'')]"
| "required_checks (StkPushQuery c) = [(c, ''Checkout request code is required'')]"
| "required_checks (RegisterUrl rt cu vu) =
     [(cu, ''Confirmation url is required''), (vu, ''Validation url is required'')]"
| "required_checks (InitiateB2C a p cmd ru qu rm) =
     [(a, ''Amount is required''), (p, ''Phone number is required''),
      (ru, ''Result URL is required'')]"
| "required_checks (TransactionStatus t ru qu) =
     [(t, ''Transaction ID is required''), (ru, ''Result Url is required'')]"
| "required_checks (AccountBalance ru qu) = [(ru, ''Result Url is required'')]"
| "required_checks (ReverseTransaction a t ru qu) =
     [(t, ''Transaction ID is required''), (a, ''Amount is required''),
      (ru, ''Result Url is required'')]"
| "required_checks (TaxRemittance a prn ru qu) =
     [(prn, ''Payment Registration No is required''), (a, ''Amount is required''),
      (ru, ''Result Url is required'')]"
| "required_checks (InitiateB2B a pt sc acc ru qu) =
     [(sc, ''Short code is required''), (a, ''Amount is required''),
      (ru, ''Result Url is required'')]"
| "required_checks (InitiateB2BExpressCheckout en a rsc cb pn pr rr) =
     [(a, ''Amount is required''), (rsc, ''Short code is required''),
      (pn, ''Partner Name is required''), (cb, ''Callback Url is required'')]"
| "required_checks (MpesaRatiba a p ar sd ed son cb f) =
     [(a, ''Amount is required''), (p, ''Phone number is required''),
      (ar, ''Account reference is required''), (cb, ''Callback Url is required''),
      (sd, ''Start Date is required''), (ed, ''End Date is required''),
      (son, ''Standing Order Name is required'')]"
| "required_checks GetBusinessName = []"

definition first_falsy :: "call \<Rightarrow> (jsval \<times> string) option" where
  "first_falsy c = find (\<lambda>(v, msg). \<not> truthy v) (required_checks c)"

text \<open>
  A call whose identifier type \<^verbatim>\<open>queryOrgInfo\<close> supports: the type argument of
  \<^verbatim>\<open>queryOrgInfo\<close> itself, and the shortcode type of the client for
  \<^verbatim>\<open>getBusinessName\<close> and for \<^verbatim>\<open>generateQRCode\<close>, which calls it. The other methods
  make no such test.
\<close>

definition type_supported :: "Mpesa \<Rightarrow> call \<Rightarrow> bool" where
  "type_supported this c =
     (case c of
        QueryOrgInfo t sc \<Rightarrow> t = JStr ''till'' \<or> t = JStr ''paybill''
      | GenerateQRCode a acc sz \<Rightarrow>
          m_shortCodeType this = ''till'' \<or> m_shortCodeType this = ''paybill''
      | GetBusinessName \<Rightarrow> m_shortCodeType this = ''till'' \<or> m_shortCodeType this = ''paybill''
      | _ \<Rightarrow> True)"

definition dispatched :: "transport \<Rightarrow> bool \<Rightarrow> world \<Rightarrow> (js_error + jsval) \<times> world \<Rightarrow> bool" where
  "dispatched net em s out =
     (\<exists>ep pl. stamped (self s) ep pl \<and> out = finish em (sendRequest net ep pl s))"

text \<open>Reading a decimal numeral back.\<close>

definition read_nat :: "string \<Rightarrow> nat" where
  "read_nat ds = foldl (\<lambda>a c. 10 * a + (of_char c - 48)) 0 ds"

subsection \<open>Concrete inputs\<close>

definition sandbox_config :: MpesaConfig where
  "sandbox_config =
     \<lparr> env = Some ''sandbox'', requester = Some ''254708374149'',
       shortCodeType = Some ''paybill'', businessShortCode = Some ''174379'',
       credentials = Some \<lparr> passKey = Some ''bfb279f9'', initiatorName = Some ''testapi'',
                            initiatorPass = Some ''Safaricom999!'' \<rparr>,
       appInfo = Some \<lparr> consumerKey = Some ''ck'', consumerSecret = Some ''cs'' \<rparr> \<rparr>"

definition empty_requester_config :: MpesaConfig where
  "empty_requester_config = sandbox_config \<lparr> requester := Some [] \<rparr>"

text \<open>A clock reading and a stand-in for the RSA encryption (it reverses the bytes).\<close>

definition demo_platform :: platform where
  "demo_platform =
     \<lparr> nowISO = ''2024-01-01T12:00:00.000Z'', publicEncrypt = (\<lambda>path bytes. Inr (rev bytes)) \<rparr>"

definition sandbox_client :: Mpesa where
  "sandbox_client =
     \<lparr> m_environment = ''sandbox'', m_requester = ''254708374149'',
       m_timeStamp = ''20240101120000'', m_shortCodeType = ''paybill'',
       m_passKey = ''bfb279f9'', m_businessShortCode = ''174379'',
       m_baseUrl = ''https://sandbox.safaricom.co.ke'', m_consumerSecret = ''cs'',
       m_initiatorName = ''testapi'', m_initiatorPass = ''Safaricom999!'',
       m_consumerKey = ''ck'',
       m_shortCodePassword = ''MTc0Mzc5YmZiMjc5ZjkyMDI0MDEwMTEyMDAwMA=='',
       m_securityCredential = ''ITk5OW1vY2lyYWZhUw=='' \<rparr>"

definition fresh :: world where
  "fresh = \<lparr> self = sandbox_client, wire = [] \<rparr>"

text \<open>
  A remote side that grants every token request and gives one fixed answer to every
  business request, and one where the token endpoint cannot be reached.
\<close>

definition token_body :: jsval where
  "token_body = JObj [(''access_token'', JStr ''tok123''), (''expires_in'', JStr ''3599'')]"

definition server :: "http_result \<Rightarrow> transport" where
  "server answer hist rq =
     (if rq_method rq = GET then HttpResponse 200 token_body else answer)"

definition offline :: transport where
  "offline hist rq = NetworkError ''getaddrinfo ENOTFOUND sandbox.safaricom.co.ke''"

definition invalid_amount :: http_result where
  "invalid_amount = HttpResponse 400 (JObj [(''ResponseMessage'', JStr ''Invalid Amount'')])"

definition accepted_body :: jsval where
  "accepted_body =
     JObj [(''ResponseCode'', JStr ''0''), (''ResponseDescription'', JStr ''Success'')]"

definition accepted :: http_result where
  "accepted = HttpResponse 200 accepted_body"

definition a_push :: call where
  "a_push =
     StkPush (JNum 100) (JStr ''0712345678'') (JStr ''INV-1'')
       (JStr ''https://example.com/callback'') JUndefined"

definition push_payload :: jsval where
  "push_payload =
     JObj [(''Amount'', JNum 100), (''PartyA'', JStr ''254712345678''),
           (''CallBackURL'', JStr ''https://example.com/callback''),
           (''Timestamp'', JStr ''20240101120000''),
           (''TransactionDesc'', JStr ''STK Push Request''),
           (''PhoneNumber'', JStr ''254712345678''), (''PartyB'', JStr ''174379''),
           (''AccountReference'', JStr ''INV-1''),
           (''TransactionType'', JStr ''CustomerPayBillOnline''),
           (''BusinessShortCode'', JStr ''174379''),
           (''Password'', JStr ''MTc0Mzc5YmZiMjc5ZjkyMDI0MDEwMTEyMDAwMA=='')]"

definition push_request :: request where
  "push_request =
     \<lparr> rq_method = POST,
       rq_url = ''https://sandbox.safaricom.co.ke/mpesa/stkpush/v1/processrequest'',
       rq_headers = [(''Content-Type'', ''application/json''),
                     (''Authorization'', ''Bearer tok123'')],
       rq_data = push_payload \<rparr>"

definition token_request :: request where
  "token_request =
     \<lparr> rq_method = GET,
       rq_url = ''https://sandbox.safaricom.co.ke/oauth/v1/generate?grant_type=client_credentials'',
       rq_headers = [(''Authorization'', ''Basic Y2s6Y3M=''),
                     (''Content-Type'', ''application/json'')],
       rq_data = JUndefined \<rparr>"

definition b2b_payload :: jsval where
  "b2b_payload =
     JObj [(''Initiator'', JStr ''testapi''),
           (''SecurityCredential'', JStr ''ITk5OW1vY2lyYWZhUw==''),
           (''CommandID'', JStr ''BusinessPayBill''),
           (''SenderIdentifierType'', JStr ''4''), (''RecieverIdentifierType'', JStr ''4''),
           (''Amount'', JNum 100), (''PartyA'', JStr ''174379''), (''PartyB'', JStr ''600000''),
           (''AccountReference'', JStr []), (''Requester'', JStr ''254708374149''),
           (''Remarks'', JStr ''OK''),
           (''QueueTimeOutURL'', JStr ''https://example.com/result''),
           (''ResultURL'', JStr ''https://example.com/result'')]"

definition b2b_request :: request where
  "b2b_request =
     \<lparr> rq_method = POST,
       rq_url = ''https://sandbox.safaricom.co.ke/mpesa/b2b/v1/paymentrequest'',
       rq_headers = [(''Content-Type'', ''application/json''),
                     (''Authorization'', ''Bearer tok123'')],
       rq_data = b2b_payload \<rparr>"

definition a_b2b_without_account :: call where
  "a_b2b_without_account =
     InitiateB2B (JNum 100) (JStr ''PaybillToPaybill'') (JStr ''600000'') (JStr [])
       (JStr ''https://example.com/result'') JUndefined"

definition register_request :: "jsval \<Rightarrow> request" where
  "register_request responseType =
     \<lparr> rq_method = POST,
       rq_url = ''https://sandbox.safaricom.co.ke/mpesa/c2b/v2/registerurl'',
       rq_headers = [(''Content-Type'', ''application/json''),
                     (''Authorization'', ''Bearer tok123'')],
       rq_data = JObj [(''ShortCode'', JStr ''174379''), (''ResponseType'', responseType),
                       (''ConfirmationURL'', JStr ''https://example.com/confirm''),
                       (''ValidationURL'', JStr ''https://example.com/validate'')] \<rparr>"

definition org_request :: "number \<Rightarrow> request" where
  "org_request n =
     \<lparr> rq_method = POST,
       rq_url = ''https://sandbox.safaricom.co.ke/sfcverify/v1/query/info'',
       rq_headers = [(''Content-Type'', ''application/json''),
                     (''Authorization'', ''Bearer tok123'')],
       rq_data = JObj [(''IdentifierType'', JNum n), (''Identifier'', JStr ''174379'')] \<rparr>"

definition a_push_without_phone :: call where
  "a_push_without_phone =
     StkPush (JNum 100) JUndefined (JStr ''INV-1'') (JStr ''https://example.com/callback'')
       JUndefined"

definition falsy_answer :: http_result where
  "falsy_answer = HttpResponse 200 (JBool False)"

section \<open>Construction\<close>

lemma utf8_append: "utf8 (a @ b) = utf8 a @ utf8 b"
  by (simp add: utf8_def)

lemma validateConfig_first_missing:
  "validateConfig config =
     (case first_missing config of
        None \<Rightarrow> Inr ()
      | Some (kind, key) \<Rightarrow>
          Inl (MpesaException (JStr (''Missing required '' @ kind @ '' parameter: '' @ key))))"
  unfolding validateConfig_def first_missing_def required_fields_def requiredKeys_def
    requiredCredentials_def requiredAppInfo_def
  by (simp add: config_has_def credentials_has_def appInfo_has_def split: option.splits)

lemma given_Some: "given x \<Longrightarrow> \<exists>v. x = Some v"
  by (cases x) simp_all

lemma first_missing_None:
  "first_missing config = None \<Longrightarrow>
   \<exists>e rq sct bsc cr ai pk iname ipass ck cs.
     env config = Some e \<and> requester config = Some rq \<and> shortCodeType config = Some sct \<and>
     businessShortCode config = Some bsc \<and> credentials config = Some cr \<and>
     appInfo config = Some ai \<and> passKey cr = Some pk \<and> initiatorName cr = Some iname \<and>
     initiatorPass cr = Some ipass \<and> consumerKey ai = Some ck \<and> consumerSecret ai = Some cs"
  unfolding first_missing_def required_fields_def
  by (auto split: if_splits option.splits dest!: given_Some)

lemma construct_sandbox: "new_Mpesa demo_platform sandbox_config = Inr sandbox_client"
  by code_simp

text \<open>
  C2, as the code has it. Construction fails with a missing-parameter error exactly
  when a required field is absent or is the empty string, and the message names the
  first such field in the order of validation, after the word for its group. When every
  required field is there and not empty, construction goes on to the security
  credential: it yields a client when the certificate is read and the encryption
  succeeds, and fails with that failure otherwise.
\<close>

theorem construction_validates:
  "((\<exists>m. new_Mpesa pf config = Inl (MpesaException m)) = (first_missing config \<noteq> None)) \<and>
   (case first_missing config of
      Some (kind, key) \<Rightarrow>
        new_Mpesa pf config =
          Inl (MpesaException (JStr (''Missing required '' @ kind @ '' parameter: '' @ key)))
    | None \<Rightarrow>
        (\<exists>e cr ipass. env config = Some e \<and> credentials config = Some cr \<and>
           initiatorPass cr = Some ipass \<and>
           (case publicEncrypt pf (certificatePathOf e) (utf8 ipass) of
              Inl msg \<Rightarrow> new_Mpesa pf config = Inl (SystemError msg)
            | Inr cipher \<Rightarrow> (\<exists>c. new_Mpesa pf config = Inr c))))"
proof (cases "first_missing config")
  case (Some km)
  then show ?thesis
    by (cases km) (simp add: new_Mpesa_def validateConfig_first_missing)
next
  case None
  from first_missing_None [OF None] obtain e rq sct bsc cr ai pk iname ipass ck cs where
    f: "env config = Some e" "requester config = Some rq" "shortCodeType config = Some sct"
       "businessShortCode config = Some bsc" "credentials config = Some cr"
       "appInfo config = Some ai" "passKey cr = Some pk" "initiatorName cr = Some iname"
       "initiatorPass cr = Some ipass" "consumerKey ai = Some ck" "consumerSecret ai = Some cs"
    by blast
  show ?thesis
    using None f
    by (auto simp: new_Mpesa_def validateConfig_first_missing generateSecurityCredential_def
          certificatePathOf_def Let_def split: sum.splits)
qed

theorem construction_validates_witness:
  "first_missing sandbox_config = None \<and>
   new_Mpesa demo_platform sandbox_config = Inr sandbox_client \<and>
   first_missing empty_requester_config = Some (''configuration'', ''requester'') \<and>
   new_Mpesa demo_platform empty_requester_config =
     Inl (MpesaException (JStr ''Missing required configuration parameter: requester''))"
proof -
  have a: "first_missing sandbox_config = None" by code_simp
  have b: "first_missing empty_requester_config = Some (''configuration'', ''requester'')"
    by code_simp
  from construction_validates [of demo_platform empty_requester_config] b construct_sandbox a
  show ?thesis by simp
qed

text \<open>
  C2 as stated fails: in this configuration no required field is absent (the requester
  is the empty string), and construction fails with a missing-parameter error.
\<close>

theorem empty_requester_rejected:
  "env empty_requester_config \<noteq> None \<and> requester empty_requester_config = Some [] \<and>
   shortCodeType empty_requester_config \<noteq> None \<and>
   businessShortCode empty_requester_config \<noteq> None \<and>
   credentials empty_requester_config =
     Some \<lparr> passKey = Some ''bfb279f9'', initiatorName = Some ''testapi'',
            initiatorPass = Some ''Safaricom999!'' \<rparr> \<and>
   appInfo empty_requester_config =
     Some \<lparr> consumerKey = Some ''ck'', consumerSecret = Some ''cs'' \<rparr> \<and>
   new_Mpesa demo_platform empty_requester_config =
     Inl (MpesaException (JStr ''Missing required configuration parameter: requester''))"
  by code_simp

text \<open>
  C4. The shortcode password of a constructed client is the base64 text of the bytes of
  the business shortcode, followed by those of the pass key, followed by those of the
  timestamp taken at construction.
\<close>

theorem derived_password:
  assumes "new_Mpesa pf config = Inr c"
  shows "\<exists>bsc cr pk.
           businessShortCode config = Some bsc \<and> credentials config = Some cr \<and>
           passKey cr = Some pk \<and>
           m_timeStamp c = timeStampOf (nowISO pf) \<and>
           m_shortCodePassword c = base64 (utf8 bsc @ utf8 pk @ utf8 (timeStampOf (nowISO pf)))"
  using assms unfolding new_Mpesa_def generatePassword_def Let_def
  by (auto simp: utf8_append split: sum.splits option.splits)

theorem derived_password_witness:
  "new_Mpesa demo_platform sandbox_config = Inr sandbox_client \<and>
   m_shortCodePassword sandbox_client =
     base64 (utf8 ''174379'' @ utf8 ''bfb279f9'' @ utf8 ''20240101120000'')"
proof -
  have ts: "timeStampOf (nowISO demo_platform) = ''20240101120000''" by code_simp
  have "m_shortCodePassword sandbox_client =
          base64 (utf8 ''174379'' @ utf8 ''bfb279f9'' @ utf8 ''20240101120000'')"
    using derived_password [OF construct_sandbox] ts by (simp add: sandbox_config_def)
  with construct_sandbox show ?thesis by simp
qed

section \<open>Decimal numerals\<close>

lemma digit_value: "d < 10 \<Longrightarrow> of_char (digit_char d) - 48 = d"
proof -
  assume "d < 10"
  then have "d \<in> {0, 1, 2, 3, 4, 5, 6, 7, 8, 9}" by auto
  then show ?thesis by (auto simp: digit_char_def)
qed

lemma digit_is_digit: "is_digit (digit_char d)"
proof -
  define k where "k = d mod 10"
  then have "k < 10" by simp
  then have "k \<in> {0, 1, 2, 3, 4, 5, 6, 7, 8, 9}" by auto
  then have "is_digit (''0123456789'' ! k)" by (auto simp: is_digit_def)
  then show ?thesis by (simp add: digit_char_def k_def)
qed

lemma digit_char_mod: "digit_char (n mod 10) = digit_char n"
  by (simp add: digit_char_def)

lemma read_nat_snoc: "read_nat (ds @ [c]) = 10 * read_nat ds + (of_char c - 48)"
  by (simp add: read_nat_def)

lemma read_show_nat: "read_nat (show_nat n) = n"
proof (induction n rule: show_nat.induct)
  case (1 n)
  show ?case
  proof (cases "n < 10")
    case True
    then show ?thesis
      using digit_value [of n] by (simp add: show_nat.simps [of n] read_nat_def)
  next
    case False
    with 1 have "read_nat (show_nat (n div 10)) = n div 10" by simp
    moreover have "of_char (digit_char (n mod 10)) - 48 = n mod 10"
      by (rule digit_value) simp
    ultimately show ?thesis
      using False by (simp add: show_nat.simps [of n] read_nat_snoc digit_char_mod)
  qed
qed

lemma show_nat_digits: "\<forall>c\<in>set (show_nat n). is_digit c"
proof (induction n rule: show_nat.induct)
  case (1 n)
  then show ?case
    by (cases "n < 10") (auto simp: show_nat.simps [of n] digit_is_digit)
qed

section \<open>Phone numbers\<close>

lemma show_nat_not_empty: "show_nat n \<noteq> []"
  by (simp add: show_nat.simps [of n])

lemmas decimal_simps = number_toString_def show_int_def show_nat.simps digit_char_def

text \<open>
  C3. A phone number given as a string or as a number: when its text has nine
  characters, 254 is put in front; when it has ten, the first is dropped and 254 is put
  in front; a text of any other length comes back as it is; the empty string, zero, NaN,
  null and undefined give null. The text of a number is its decimal numeral, with a
  minus sign in front when it is negative: digits only, which read back as the number.
  The numbers are the integers from \<open>- 2 ^ 53\<close> to \<open>2 ^ 53 - 1\<close>.
\<close>

theorem formatPhoneNumber_rule:
  "formatPhoneNumber (JStr s) =
     (if s = [] then JNull
      else if length s = 9 then JStr (''254'' @ s)
      else if length s = 10 then JStr (''254'' @ tl s)
      else JStr s) \<and>
   formatPhoneNumber (JNum n) =
     (if n = 0 then JNull
      else if length (number_toString n) = 9 then JStr (''254'' @ number_toString n)
      else if length (number_toString n) = 10 then JStr (''254'' @ tl (number_toString n))
      else JStr (number_toString n)) \<and>
   number_toString n =
     (if sint n < 0 then CHR ''-'' # show_nat (nat (- sint n)) else show_nat (nat (sint n))) \<and>
   read_nat (show_nat k) = k \<and> (\<forall>c\<in>set (show_nat k). is_digit c) \<and>
   - (2 ^ 53) \<le> sint n \<and> sint n < 2 ^ 53 \<and>
   formatPhoneNumber JNaN = JNull \<and>
   formatPhoneNumber JUndefined = JNull \<and>
   formatPhoneNumber JNull = JNull"
proof -
  have "- (2 ^ 53) \<le> sint n \<and> sint n < 2 ^ 53"
    using sint_lt [of n] sint_ge [of n] by simp
  then show ?thesis
    using read_show_nat [of k] show_nat_digits [of k]
    by (simp add: formatPhoneNumber_def number_toString_def show_int_def Let_def drop_Suc)
qed

theorem formatPhoneNumber_rule_witness:
  "formatPhoneNumber (JStr ''0712345678'') = JStr ''254712345678'' \<and>
   formatPhoneNumber (JStr ''712345678'') = JStr ''254712345678'' \<and>
   formatPhoneNumber (JStr ''254712345678'') = JStr ''254712345678'' \<and>
   formatPhoneNumber (JStr ''12345'') = JStr ''12345'' \<and>
   formatPhoneNumber (JStr []) = JNull \<and>
   formatPhoneNumber (JNum 712345678) = JStr ''254712345678'' \<and>
   formatPhoneNumber (JNum 7123456789) = JStr ''254123456789'' \<and>
   formatPhoneNumber (JNum 254712345678) = JStr ''254712345678'' \<and>
   formatPhoneNumber (JNum 0) = JNull \<and>
   number_toString 9007199254740991 = ''9007199254740991'' \<and>
   read_nat (show_nat 712345678) = 712345678"
  using formatPhoneNumber_rule [of "''0712345678''" 712345678 712345678]
    formatPhoneNumber_rule [of "''712345678''" 7123456789 0]
    formatPhoneNumber_rule [of "''254712345678''" 254712345678 0]
    formatPhoneNumber_rule [of "''12345''" 0 0]
    formatPhoneNumber_rule [of "[]" 9007199254740991 0]
  by (simp add: decimal_simps)

section \<open>One dispatch\<close>

lemma requestFailure_tokenFailure: "requestFailure (tokenFailure e) = tokenFailure e"
  by (simp add: requestFailure_def tokenFailure_def optProp_def orJS_def)

lemma finish_judge: "finish em (x, s) = (judge em x, s)"
  by (cases x) (simp_all add: finish_def judge_def unwrap_def unwrap_em_def)

lemma judge_Inl: "judge em (Inl e) = Inl e"
  by (simp add: judge_def)

lemma sendRequest_eq:
  "sendRequest net ep d s =
     (let T = tokenRequest (self s); a = net (wire s) T;
          s1 = s \<lparr> wire := wire s @ [(T, a)] \<rparr>
      in case readToken (settle a) of
           Inl e \<Rightarrow> (Inl (tokenFailure e), s1)
         | Inr tok \<Rightarrow>
             (let P = postRequest (self s) ep tok d; b = net (wire s1) P
              in (post_outcome b, s1 \<lparr> wire := wire s1 @ [(P, b)] \<rparr>)))"
  by (simp add: sendRequest_def generateAccessToken_def axios_def Let_def post_outcome_def
        requestFailure_tokenFailure split: sum.splits prod.splits)

lemma step_ok_dispatch:
  "stamped (self s) ep pl \<Longrightarrow> step_ok net em s (finish em (sendRequest net ep pl s))"
  unfolding step_ok_def sendRequest_eq Let_def
  by (auto simp: finish_judge judge_Inl split: sum.splits)

lemma shaped_throw: "shaped net em s (throw msg s)"
  unfolding shaped_def by blast

lemma shaped_unwrap:
  "stamped (self s) ep pl \<Longrightarrow> shaped net False s (unwrap (sendRequest net ep pl s))"
  unfolding shaped_def finish_def by auto

lemma shaped_unwrap_em:
  "stamped (self s) ep pl \<Longrightarrow> shaped net True s (unwrap_em (sendRequest net ep pl s))"
  unfolding shaped_def finish_def by auto

lemma shaped_cases:
  assumes "shaped net em s out"
  shows "(\<exists>msg. out = throw msg s) \<or> step_ok net em s out"
  using assms unfolding shaped_def by (auto intro: step_ok_dispatch)

lemmas shaped_intros = shaped_throw shaped_unwrap shaped_unwrap_em

lemmas stamped_simps = stamped_def stamped_endpoints_def carries_secrets_def optProp_def

lemma snd_unwrap: "snd (unwrap out) = snd out"
  by (cases out) (auto simp: unwrap_def split: sum.splits)

lemma wire_sendRequest:
  "wire (snd (sendRequest net ep pl s)) =
     (let T = tokenRequest (self s); a = net (wire s) T
      in case readToken (settle a) of
           Inl e \<Rightarrow> wire s @ [(T, a)]
         | Inr tok \<Rightarrow>
             wire s @ [(T, a), (postRequest (self s) ep tok pl,
                                net (wire s @ [(T, a)]) (postRequest (self s) ep tok pl))])"
  by (simp add: sendRequest_eq Let_def split: sum.splits)

section \<open>The shape of every method\<close>

lemma shape_stkPush: "shaped net False s (stkPush net a p acc cb d s)"
  unfolding stkPush_def Let_def by (simp add: shaped_intros stamped_simps)

lemma shape_queryOrgInfo: "shaped net False s (queryOrgInfo net t sc s)"
  unfolding queryOrgInfo_def by (simp add: shaped_intros stamped_simps)

lemma shape_stkPushQuery: "shaped net False s (stkPushQuery net c s)"
  unfolding stkPushQuery_def by (simp add: shaped_intros stamped_simps)

lemma shape_registerUrl: "shaped net False s (registerUrl net rt cu vu s)"
  unfolding registerUrl_def by (simp add: shaped_intros stamped_simps)

lemma shape_initiateB2C: "shaped net False s (initiateB2C net a p cmd ru qu rm s)"
  unfolding initiateB2C_def Let_def by (simp add: shaped_intros stamped_simps)

lemma shape_transactionStatus: "shaped net False s (transactionStatus net t ru qu s)"
  unfolding transactionStatus_def Let_def by (simp add: shaped_intros stamped_simps)

lemma shape_accountBalance: "shaped net False s (accountBalance net ru qu s)"
  unfolding accountBalance_def Let_def by (simp add: shaped_intros stamped_simps)

lemma shape_reverseTransaction: "shaped net False s (reverseTransaction net a t ru qu s)"
  unfolding reverseTransaction_def Let_def by (simp add: shaped_intros stamped_simps)

lemma shape_taxRemittance: "shaped net False s (taxRemittance net a prn ru qu s)"
  unfolding taxRemittance_def Let_def by (simp add: shaped_intros stamped_simps)

lemma shape_initiateB2B: "shaped net False s (initiateB2B net a pt sc acc ru qu s)"
  unfolding initiateB2B_def Let_def by (simp add: shaped_intros stamped_simps)

lemma shape_initiateB2BExpressCheckout:
  "shaped net True s (initiateB2BExpressCheckout net en a rsc cb pn pr rr s)"
  unfolding initiateB2BExpressCheckout_def Let_def by (simp add: shaped_intros stamped_simps)

lemma shape_mpesaRatiba: "shaped net True s (mpesaRatiba net a p ar sd ed son cb f s)"
  unfolding mpesaRatiba_def Let_def by (simp add: shaped_intros stamped_simps)

lemma queryOrgInfo_cases:
  "(\<exists>msg. queryOrgInfo net t sc s = throw msg s) \<or> step_ok net False s (queryOrgInfo net t sc s)"
  using shape_queryOrgInfo by (rule shaped_cases)

lemma judge_Inr:
  "judge em x = Inr v \<Longrightarrow> truthy v \<and> x = Inr \<lparr> response = v, httpCode = 200 \<rparr>"
  by (cases x) (auto simp: judge_def split: if_splits)

lemma step_ok_truthy:
  assumes "step_ok net em s (Inr v, s')"
  shows "truthy v"
proof (cases "readToken (settle (net (wire s) (tokenRequest (self s))))")
  case (Inl e)
  with assms show ?thesis by (simp add: step_ok_def Let_def)
next
  case (Inr tok)
  with assms obtain b where "Inr v = judge em (post_outcome b)"
    by (auto simp: step_ok_def Let_def)
  then show ?thesis using judge_Inr [of em "post_outcome b" v] by simp
qed

lemma truthy_getProp: "truthy v \<Longrightarrow> getProp v k = Some (optProp v k)"
  by (cases v) (simp_all add: optProp_def)

text \<open>getBusinessName: the failure of its query, or the name out of a truthy answer.\<close>

lemma getBusinessName_cases:
  assumes "getBusinessName net s = (r, s')"
  shows "(\<exists>msg. r = Inl (MpesaException (JStr msg)) \<and> s' = s) \<or>
         (\<exists>e. r = Inl e \<and> step_ok net False s (r, s')) \<or>
         (\<exists>org. step_ok net False s (Inr org, s') \<and> r = Inr (optProp org ''OrganizationName''))"
proof -
  let ?q = "queryOrgInfo net (JStr (m_shortCodeType (self s))) (JStr (m_businessShortCode (self s))) s"
  obtain r1 s1 where q: "?q = (r1, s1)" by (cases ?q)
  from queryOrgInfo_cases [of net "JStr (m_shortCodeType (self s))"
      "JStr (m_businessShortCode (self s))" s]
  have c: "(\<exists>msg. (r1, s1) = throw msg s) \<or> step_ok net False s (r1, s1)"
    by (simp add: q)
  show ?thesis
  proof (cases r1)
    case (Inl e)
    with assms q have "r = Inl e" "s' = s1" by (simp_all add: getBusinessName_def)
    with c Inl show ?thesis by (auto simp: throw_def)
  next
    case (Inr org)
    with c have st: "step_ok net False s (Inr org, s1)" by (auto simp: throw_def)
    from step_ok_truthy [OF st] have "getProp org ''OrganizationName'' = Some (optProp org ''OrganizationName'')"
      by (rule truthy_getProp)
    with assms q Inr have "r = Inr (optProp org ''OrganizationName'')" "s' = s1"
      by (simp_all add: getBusinessName_def)
    with st show ?thesis by blast
  qed
qed

lemma generateQRCode_cases:
  assumes "generateQRCode net a acc sz s = (r, s')"
  shows "(\<exists>msg. r = Inl (MpesaException (JStr msg)) \<and> s' = s) \<or>
         (\<exists>e. r = Inl e \<and> step_ok net False s (r, s')) \<or>
         (\<exists>org s1. step_ok net False s (Inr org, s1) \<and> step_ok net False s1 (r, s'))"
proof (cases "truthy a")
  case False
  with assms show ?thesis by (auto simp: generateQRCode_def throw_def Let_def)
next
  case True
  obtain r1 s1 where g: "getBusinessName net s = (r1, s1)" by (cases "getBusinessName net s")
  show ?thesis
  proof (cases r1)
    case (Inl e)
    with assms True g have "r = r1" "s' = s1" by (simp_all add: generateQRCode_def Let_def)
    with getBusinessName_cases [OF g] Inl show ?thesis by auto
  next
    case (Inr name)
    with getBusinessName_cases [OF g] obtain org where
      st: "step_ok net False s (Inr org, s1)" by auto
    then have same: "self s1 = self s" by (simp add: step_ok_def)
    have d: "step_ok net False s1 (unwrap (sendRequest net ''mpesa/qrcode/v1/generate'' pl s1))"
      for pl
      using step_ok_dispatch [of s1 "''mpesa/qrcode/v1/generate''" pl net False]
      by (simp add: finish_def stamped_simps)
    from assms True g Inr have
      "\<exists>pl. unwrap (sendRequest net ''mpesa/qrcode/v1/generate'' pl s1) = (r, s')"
      by (simp add: generateQRCode_def Let_def) blast
    with d have "step_ok net False s1 (r, s')" by metis
    with st show ?thesis by blast
  qed
qed

text \<open>What any call leaves behind.\<close>

lemma invoke_cases:
  assumes "invoke net c s = (r, s')"
  shows "(\<exists>msg. r = Inl (MpesaException (JStr msg)) \<and> s' = s) \<or>
         (step_ok net (errorMessageOnly c) s (r, s') \<and> (c = GetBusinessName \<longrightarrow> (\<exists>e. r = Inl e))) \<or>
         (\<exists>org. c = GetBusinessName \<and> step_ok net False s (Inr org, s') \<and>
                r = Inr (optProp org ''OrganizationName'')) \<or>
         (\<exists>org s1. (\<exists>a acc sz. c = GenerateQRCode a acc sz) \<and>
                step_ok net False s (Inr org, s1) \<and> step_ok net False s1 (r, s'))"
proof (cases c)
  case (StkPush a p acc cb d)
  with assms shaped_cases [OF shape_stkPush [of net s a p acc cb d]] show ?thesis
    by (auto simp: errorMessageOnly_def throw_def)
next
  case (QueryOrgInfo t sc)
  with assms shaped_cases [OF shape_queryOrgInfo [of net s t sc]] show ?thesis
    by (auto simp: errorMessageOnly_def throw_def)
next
  case (GenerateQRCode a acc sz)
  with assms generateQRCode_cases [of net a acc sz s r s'] show ?thesis
    by (auto simp: errorMessageOnly_def)
next
  case (StkPushQuery x)
  with assms shaped_cases [OF shape_stkPushQuery [of net s x]] show ?thesis
    by (auto simp: errorMessageOnly_def throw_def)
next
  case (RegisterUrl rt cu vu)
  with assms shaped_cases [OF shape_registerUrl [of net s rt cu vu]] show ?thesis
    by (auto simp: errorMessageOnly_def throw_def)
next
  case (InitiateB2C a p cmd ru qu rm)
  with assms shaped_cases [OF shape_initiateB2C [of net s a p cmd ru qu rm]] show ?thesis
    by (auto simp: errorMessageOnly_def throw_def)
next
  case (TransactionStatus t ru qu)
  with assms shaped_cases [OF shape_transactionStatus [of net s t ru qu]] show ?thesis
    by (auto simp: errorMessageOnly_def throw_def)
next
  case (AccountBalance ru qu)
  with assms shaped_cases [OF shape_accountBalance [of net s ru qu]] show ?thesis
    by (auto simp: errorMessageOnly_def throw_def)
next
  case (ReverseTransaction a t ru qu)
  with assms shaped_cases [OF shape_reverseTransaction [of net s a t ru qu]] show ?thesis
    by (auto simp: errorMessageOnly_def throw_def)
next
  case (TaxRemittance a prn ru qu)
  with assms shaped_cases [OF shape_taxRemittance [of net s a prn ru qu]] show ?thesis
    by (auto simp: errorMessageOnly_def throw_def)
next
  case (InitiateB2B a pt sc acc ru qu)
  with assms shaped_cases [OF shape_initiateB2B [of net s a pt sc acc ru qu]] show ?thesis
    by (auto simp: errorMessageOnly_def throw_def)
next
  case (InitiateB2BExpressCheckout en a rsc cb pn pr rr)
  with assms shaped_cases [OF shape_initiateB2BExpressCheckout [of net s en a rsc cb pn pr rr]]
  show ?thesis
    by (auto simp: errorMessageOnly_def throw_def)
next
  case (MpesaRatiba a p ar sd ed son cb f)
  with assms shaped_cases [OF shape_mpesaRatiba [of net s a p ar sd ed son cb f]] show ?thesis
    by (auto simp: errorMessageOnly_def throw_def)
next
  case GetBusinessName
  with assms getBusinessName_cases [of net s r s'] show ?thesis
    by (auto simp: errorMessageOnly_def)
qed

section \<open>Calls that pass validation\<close>

lemma dispatched_unwrap:
  "stamped (self s) ep pl \<Longrightarrow> dispatched net False s (unwrap (sendRequest net ep pl s))"
  unfolding dispatched_def finish_def by auto

lemma dispatched_unwrap_em:
  "stamped (self s) ep pl \<Longrightarrow> dispatched net True s (unwrap_em (sendRequest net ep pl s))"
  unfolding dispatched_def finish_def by auto

lemma dispatched_step_ok: "dispatched net em s out \<Longrightarrow> step_ok net em s out"
  unfolding dispatched_def by (auto intro: step_ok_dispatch)

lemmas dispatched_intros = dispatched_unwrap dispatched_unwrap_em

lemma valid_stkPush:
  "first_falsy (StkPush a p acc cb d) = None \<Longrightarrow> dispatched net False s (stkPush net a p acc cb d s)"
  unfolding stkPush_def Let_def first_falsy_def
  by (simp add: dispatched_intros stamped_simps split: if_splits)

lemma valid_queryOrgInfo:
  "t = JStr ''till'' \<or> t = JStr ''paybill'' \<Longrightarrow> dispatched net False s (queryOrgInfo net t sc s)"
  unfolding queryOrgInfo_def
  by (auto simp: dispatched_intros stamped_simps)

lemma valid_stkPushQuery:
  "first_falsy (StkPushQuery c) = None \<Longrightarrow> dispatched net False s (stkPushQuery net c s)"
  unfolding stkPushQuery_def first_falsy_def
  by (simp add: dispatched_intros stamped_simps split: if_splits)

lemma valid_registerUrl:
  "first_falsy (RegisterUrl rt cu vu) = None \<Longrightarrow>
   dispatched net False s (registerUrl net rt cu vu s)"
  unfolding registerUrl_def first_falsy_def
  by (simp add: dispatched_intros stamped_simps split: if_splits)

lemma valid_initiateB2C:
  "first_falsy (InitiateB2C a p cmd ru qu rm) = None \<Longrightarrow>
   dispatched net False s (initiateB2C net a p cmd ru qu rm s)"
  unfolding initiateB2C_def Let_def first_falsy_def
  by (simp add: dispatched_intros stamped_simps split: if_splits)

lemma valid_transactionStatus:
  "first_falsy (TransactionStatus t ru qu) = None \<Longrightarrow>
   dispatched net False s (transactionStatus net t ru qu s)"
  unfolding transactionStatus_def Let_def first_falsy_def
  by (simp add: dispatched_intros stamped_simps split: if_splits)

lemma valid_accountBalance:
  "first_falsy (AccountBalance ru qu) = None \<Longrightarrow>
   dispatched net False s (accountBalance net ru qu s)"
  unfolding accountBalance_def Let_def first_falsy_def
  by (simp add: dispatched_intros stamped_simps split: if_splits)

lemma valid_reverseTransaction:
  "first_falsy (ReverseTransaction a t ru qu) = None \<Longrightarrow>
   dispatched net False s (reverseTransaction net a t ru qu s)"
  unfolding reverseTransaction_def Let_def first_falsy_def
  by (simp add: dispatched_intros stamped_simps split: if_splits)

lemma valid_taxRemittance:
  "first_falsy (TaxRemittance a prn ru qu) = None \<Longrightarrow>
   dispatched net False s (taxRemittance net a prn ru qu s)"
  unfolding taxRemittance_def Let_def first_falsy_def
  by (simp add: dispatched_intros stamped_simps split: if_splits)

lemma valid_initiateB2B:
  "first_falsy (InitiateB2B a pt sc acc ru qu) = None \<Longrightarrow>
   dispatched net False s (initiateB2B net a pt sc acc ru qu s)"
  unfolding initiateB2B_def Let_def first_falsy_def
  by (simp add: dispatched_intros stamped_simps split: if_splits)

lemma valid_initiateB2BExpressCheckout:
  "first_falsy (InitiateB2BExpressCheckout en a rsc cb pn pr rr) = None \<Longrightarrow>
   dispatched net True s (initiateB2BExpressCheckout net en a rsc cb pn pr rr s)"
  unfolding initiateB2BExpressCheckout_def Let_def first_falsy_def
  by (simp add: dispatched_intros stamped_simps split: if_splits)

lemma valid_mpesaRatiba:
  "first_falsy (MpesaRatiba a p ar sd ed son cb f) = None \<Longrightarrow>
   dispatched net True s (mpesaRatiba net a p ar sd ed son cb f s)"
  unfolding mpesaRatiba_def Let_def first_falsy_def
  by (simp add: dispatched_intros stamped_simps split: if_splits)

lemma getBusinessName_supported:
  assumes "m_shortCodeType (self s) = ''till'' \<or> m_shortCodeType (self s) = ''paybill''"
    and "getBusinessName net s = (r, s')"
  shows "(\<exists>e. r = Inl e \<and> step_ok net False s (r, s')) \<or>
         (\<exists>org. step_ok net False s (Inr org, s') \<and> r = Inr (optProp org ''OrganizationName''))"
proof -
  let ?q = "queryOrgInfo net (JStr (m_shortCodeType (self s))) (JStr (m_businessShortCode (self s))) s"
  obtain r1 s1 where q: "?q = (r1, s1)" by (cases ?q)
  from assms(1) have "dispatched net False s ?q" by (intro valid_queryOrgInfo) simp
  then have c: "step_ok net False s (r1, s1)" unfolding q by (rule dispatched_step_ok)
  show ?thesis
  proof (cases r1)
    case (Inl e)
    with assms(2) q have "r = Inl e" "s' = s1" by (simp_all add: getBusinessName_def)
    with c Inl show ?thesis by auto
  next
    case (Inr org)
    with c have st: "step_ok net False s (Inr org, s1)" by simp
    from step_ok_truthy [OF st]
    have "getProp org ''OrganizationName'' = Some (optProp org ''OrganizationName'')"
      by (rule truthy_getProp)
    with assms(2) q Inr have "r = Inr (optProp org ''OrganizationName'')" "s' = s1"
      by (simp_all add: getBusinessName_def)
    with st show ?thesis by blast
  qed
qed

lemma generateQRCode_supported:
  assumes "truthy a"
    and "m_shortCodeType (self s) = ''till'' \<or> m_shortCodeType (self s) = ''paybill''"
    and "generateQRCode net a acc sz s = (r, s')"
  shows "(\<exists>e. r = Inl e \<and> step_ok net False s (r, s')) \<or>
         (\<exists>org s1. step_ok net False s (Inr org, s1) \<and> step_ok net False s1 (r, s'))"
proof -
  obtain r1 s1 where g: "getBusinessName net s = (r1, s1)" by (cases "getBusinessName net s")
  show ?thesis
  proof (cases r1)
    case (Inl e)
    with assms(1,3) g have "r = r1" "s' = s1" by (simp_all add: generateQRCode_def Let_def)
    with getBusinessName_supported [OF assms(2) g] Inl show ?thesis by auto
  next
    case (Inr name)
    with getBusinessName_supported [OF assms(2) g] obtain org where
      st: "step_ok net False s (Inr org, s1)" by auto
    have d: "step_ok net False s1 (unwrap (sendRequest net ''mpesa/qrcode/v1/generate'' pl s1))"
      for pl
      using step_ok_dispatch [of s1 "''mpesa/qrcode/v1/generate''" pl net False]
      by (simp add: finish_def stamped_simps)
    from assms(1,3) g Inr have
      "\<exists>pl. unwrap (sendRequest net ''mpesa/qrcode/v1/generate'' pl s1) = (r, s')"
      by (simp add: generateQRCode_def Let_def) blast
    with d have "step_ok net False s1 (r, s')" by metis
    with st show ?thesis by blast
  qed
qed

lemma first_falsy_QR: "first_falsy (GenerateQRCode a acc sz) = None \<Longrightarrow> truthy a"
  by (simp add: first_falsy_def split: if_splits)

text \<open>What a call leaves behind when its arguments pass every test.\<close>

lemma invoke_valid:
  assumes "first_falsy c = None" and "type_supported (self s) c" and "invoke net c s = (r, s')"
  shows "step_ok net (errorMessageOnly c) s (r, s') \<or>
         (\<exists>org. c = GetBusinessName \<and> step_ok net False s (Inr org, s') \<and>
                r = Inr (optProp org ''OrganizationName'')) \<or>
         (\<exists>org s1. (\<exists>a acc sz. c = GenerateQRCode a acc sz) \<and>
                step_ok net False s (Inr org, s1) \<and> step_ok net False s1 (r, s'))"
proof (cases c)
  case (StkPush a p acc cb d)
  with assms dispatched_step_ok [OF valid_stkPush [of a p acc cb d net s]] show ?thesis
    by (simp add: errorMessageOnly_def)
next
  case (QueryOrgInfo t sc)
  with assms dispatched_step_ok [OF valid_queryOrgInfo [of t net s sc]] show ?thesis
    by (simp add: errorMessageOnly_def type_supported_def)
next
  case (GenerateQRCode a acc sz)
  with assms(1) have ta: "truthy a" by (simp add: first_falsy_QR)
  from assms(2) GenerateQRCode have
    sup: "m_shortCodeType (self s) = ''till'' \<or> m_shortCodeType (self s) = ''paybill''"
    by (simp add: type_supported_def)
  from assms(3) GenerateQRCode have g: "generateQRCode net a acc sz s = (r, s')" by simp
  from generateQRCode_supported [OF ta sup g] GenerateQRCode show ?thesis
    by (auto simp: errorMessageOnly_def)
next
  case (StkPushQuery x)
  with assms dispatched_step_ok [OF valid_stkPushQuery [of x net s]] show ?thesis
    by (simp add: errorMessageOnly_def)
next
  case (RegisterUrl rt cu vu)
  with assms dispatched_step_ok [OF valid_registerUrl [of rt cu vu net s]] show ?thesis
    by (simp add: errorMessageOnly_def)
next
  case (InitiateB2C a p cmd ru qu rm)
  with assms dispatched_step_ok [OF valid_initiateB2C [of a p cmd ru qu rm net s]] show ?thesis
    by (simp add: errorMessageOnly_def)
next
  case (TransactionStatus t ru qu)
  with assms dispatched_step_ok [OF valid_transactionStatus [of t ru qu net s]] show ?thesis
    by (simp add: errorMessageOnly_def)
next
  case (AccountBalance ru qu)
  with assms dispatched_step_ok [OF valid_accountBalance [of ru qu net s]] show ?thesis
    by (simp add: errorMessageOnly_def)
next
  case (ReverseTransaction a t ru qu)
  with assms dispatched_step_ok [OF valid_reverseTransaction [of a t ru qu net s]] show ?thesis
    by (simp add: errorMessageOnly_def)
next
  case (TaxRemittance a prn ru qu)
  with assms dispatched_step_ok [OF valid_taxRemittance [of a prn ru qu net s]] show ?thesis
    by (simp add: errorMessageOnly_def)
next
  case (InitiateB2B a pt sc acc ru qu)
  with assms dispatched_step_ok [OF valid_initiateB2B [of a pt sc acc ru qu net s]] show ?thesis
    by (simp add: errorMessageOnly_def)
next
  case (InitiateB2BExpressCheckout en a rsc cb pn pr rr)
  with assms
    dispatched_step_ok [OF valid_initiateB2BExpressCheckout [of en a rsc cb pn pr rr net s]]
  show ?thesis
    by (simp add: errorMessageOnly_def)
next
  case (MpesaRatiba a p ar sd ed son cb f)
  with assms dispatched_step_ok [OF valid_mpesaRatiba [of a p ar sd ed son cb f net s]]
  show ?thesis
    by (simp add: errorMessageOnly_def)
next
  case GetBusinessName
  with assms getBusinessName_supported [of s net r s'] show ?thesis
    by (auto simp: errorMessageOnly_def type_supported_def)
qed

lemma step_ok_first:
  assumes "step_ok net em s (r, s')"
  shows "\<exists>rest. wire s' =
           wire s @ (tokenRequest (self s), net (wire s) (tokenRequest (self s))) # rest"
  using assms unfolding step_ok_def Let_def
  by (auto split: sum.splits)

lemma invoke_valid_first:
  assumes "first_falsy c = None" and "type_supported (self s) c" and "invoke net c s = (r, s')"
  shows "\<exists>rest. wire s' =
           wire s @ (tokenRequest (self s), net (wire s) (tokenRequest (self s))) # rest"
proof -
  from invoke_valid [OF assms] consider
    (single) r1 where "step_ok net (errorMessageOnly c) s (r1, s')"
    | (name) org where "step_ok net False s (Inr org, s')"
    | (double) org s1 where "step_ok net False s (Inr org, s1)" "step_ok net False s1 (r, s')"
    by blast
  then show ?thesis
  proof cases
    case single
    then show ?thesis by (rule step_ok_first)
  next
    case name
    then show ?thesis by (rule step_ok_first)
  next
    case double
    from step_ok_first [OF double(1)] obtain rest1 where
      a: "wire s1 = wire s @ (tokenRequest (self s), net (wire s) (tokenRequest (self s))) # rest1"
      by blast
    from step_ok_first [OF double(2)] obtain rest2 where
      b: "wire s' = wire s1 @ (tokenRequest (self s1), net (wire s1) (tokenRequest (self s1))) # rest2"
      by blast
    from a b show ?thesis by simp
  qed
qed

lemma unsupported_type:
  assumes "first_falsy c = None" and "\<not> type_supported (self s) c"
  shows "invoke net c s = (Inl (MpesaException (JStr ''Identifier type is not supported'')), s)"
proof (cases c)
  case (QueryOrgInfo t sc)
  with assms show ?thesis by (simp add: type_supported_def queryOrgInfo_def throw_def)
next
  case (GenerateQRCode a acc sz)
  with assms show ?thesis
    by (simp add: type_supported_def generateQRCode_def getBusinessName_def queryOrgInfo_def
          throw_def Let_def first_falsy_def split: if_splits)
next
  case GetBusinessName
  with assms show ?thesis
    by (simp add: type_supported_def getBusinessName_def queryOrgInfo_def throw_def)
qed (use assms in \<open>simp_all add: type_supported_def\<close>)

section \<open>Concrete runs\<close>

lemma push_accepted:
  "invoke (server accepted) a_push fresh =
     (Inr accepted_body,
      \<lparr> self = sandbox_client,
        wire = [(token_request, HttpResponse 200 token_body), (push_request, accepted)] \<rparr>)"
  by code_simp

lemma push_invalid_amount:
  "invoke (server invalid_amount) a_push fresh =
     (Inl (MpesaException (JStr ''Request failed with status code 400'')),
      \<lparr> self = sandbox_client,
        wire = [(token_request, HttpResponse 200 token_body), (push_request, invalid_amount)] \<rparr>)"
  by code_simp

lemma push_offline:
  "invoke offline a_push fresh =
     (Inl (MpesaException (JStr
        ''Failed to generate access token: getaddrinfo ENOTFOUND sandbox.safaricom.co.ke'')),
      \<lparr> self = sandbox_client,
        wire = [(token_request,
                 NetworkError ''getaddrinfo ENOTFOUND sandbox.safaricom.co.ke'')] \<rparr>)"
  by code_simp

lemma run_push_then_name:
  "run (server accepted) [a_push, GetBusinessName] \<lparr> self = sandbox_client, wire = [] \<rparr> =
     ([Inr accepted_body, Inr JUndefined],
      \<lparr> self = sandbox_client,
        wire = [(token_request, HttpResponse 200 token_body), (push_request, accepted),
                (token_request, HttpResponse 200 token_body), (org_request 4, accepted)] \<rparr>)"
  by code_simp

lemma org_wire:
  "(let T = tokenRequest (self fresh); a = server accepted (wire fresh) T
    in case readToken (settle a) of
         Inl e \<Rightarrow> wire fresh @ [(T, a)]
       | Inr tok \<Rightarrow>
           (let P = postRequest (self fresh) ''sfcverify/v1/query/info'' tok
                      (JObj [(''IdentifierType'', JNum n), (''Identifier'', JStr ''174379'')])
            in wire fresh @ [(T, a), (P, server accepted (wire fresh @ [(T, a)]) P)])) =
   [(token_request, HttpResponse 200 token_body), (org_request n, accepted)]"
  by (simp add: fresh_def server_def tokenRequest_def postRequest_def readToken_def settle_def
        token_body_def token_request_def org_request_def sandbox_client_def Let_def)
     code_simp

lemma register_wire:
  "(let T = tokenRequest (self fresh); a = server accepted (wire fresh) T
    in case readToken (settle a) of
         Inl e \<Rightarrow> wire fresh @ [(T, a)]
       | Inr tok \<Rightarrow>
           (let P = postRequest (self fresh) ''mpesa/c2b/v2/registerurl'' tok
                      (JObj [(''ShortCode'', JStr (m_businessShortCode (self fresh))),
                             (''ResponseType'', rt),
                             (''ConfirmationURL'', JStr ''https://example.com/confirm''),
                             (''ValidationURL'', JStr ''https://example.com/validate'')])
            in wire fresh @ [(T, a), (P, server accepted (wire fresh @ [(T, a)]) P)])) =
   [(token_request, HttpResponse 200 token_body), (register_request rt, accepted)]"
  by (simp add: fresh_def server_def tokenRequest_def postRequest_def readToken_def settle_def
        token_body_def token_request_def register_request_def sandbox_client_def Let_def)
     code_simp

section \<open>The last exchange of a call\<close>

lemma step_ok_last:
  assumes "step_ok net em s (r, s')" and "last (wire s') = (rq, b)"
  shows "wire s' \<noteq> wire s \<and>
         (rq_method rq = POST \<longrightarrow> r = judge em (post_outcome b)) \<and>
         (rq_method rq = GET \<longrightarrow> (\<exists>e. readToken (settle b) = Inl e \<and> r = Inl (tokenFailure e)))"
  using assms unfolding step_ok_def Let_def
  by (auto simp: tokenRequest_def postRequest_def split: sum.splits)

lemma invoke_last_post:
  assumes "invoke net c s = (r, s')" and "c \<noteq> GetBusinessName" and "wire s' \<noteq> wire s"
    and "last (wire s') = (rq, b)" and "rq_method rq = POST"
  shows "r = judge (errorMessageOnly c) (post_outcome b)"
  using invoke_cases [OF assms(1)] assms(2-5)
  by (auto dest: step_ok_last simp: errorMessageOnly_def)

lemma judge_post:
  "judge em (post_outcome (HttpResponse st body)) =
     (if 200 \<le> st \<and> st < 300 then
        (if \<not> truthy body then Inl (MpesaException (JStr ''No response received''))
         else if st \<noteq> 200 then
           Inl (MpesaException
                  (if em then
                     orJS (optProp body ''errorMessage'')
                       (JStr (''Request failed with status '' @ show_nat st))
                   else
                     orJS (optProp body ''ResponseMessage'')
                       (orJS (optProp body ''errorMessage'')
                          (JStr (''Request failed with status '' @ show_nat st)))))
         else Inr body)
      else
        Inl (MpesaException
               (orJS (optProp body ''errorMessage'')
                  (orJS (optProp body ''ResponseDescription'')
                     (JStr (''Request failed with status code '' @ show_nat st))))))"
  by (simp add: judge_def post_outcome_def settle_def requestFailure_def)

lemma post_outcome_response:
  "post_outcome (HttpResponse st body) =
     (if 200 \<le> st \<and> st < 300 then Inr \<lparr> response = body, httpCode = st \<rparr>
      else Inl (MpesaException
                  (orJS (optProp body ''errorMessage'')
                     (orJS (optProp body ''ResponseDescription'')
                        (JStr (''Request failed with status code '' @ show_nat st))))))"
  by (simp add: post_outcome_def settle_def requestFailure_def)

lemma sendRequest_last_post:
  assumes "sendRequest net ep pl s = (x, s1)" and "last (wire s1) = (rq, HttpResponse st body)"
    and "rq_method rq = POST"
  shows "x = (if 200 \<le> st \<and> st < 300 then Inr \<lparr> response = body, httpCode = st \<rparr>
              else Inl (MpesaException
                  (orJS (optProp body ''errorMessage'')
                     (orJS (optProp body ''ResponseDescription'')
                        (JStr (''Request failed with status code '' @ show_nat st))))))"
proof (cases "readToken (settle (net (wire s) (tokenRequest (self s))))")
  case (Inl e)
  with assms show ?thesis
    by (auto simp: sendRequest_eq Let_def tokenRequest_def)
next
  case (Inr tok)
  with assms have "x = post_outcome (HttpResponse st body)"
    by (auto simp: sendRequest_eq Let_def)
  then show ?thesis by (simp only: post_outcome_response)
qed

lemma judge_200:
  "judge em (post_outcome (HttpResponse 200 body)) =
     (if truthy body then Inr body else Inl (MpesaException (JStr ''No response received'')))"
  by (simp add: judge_post)

lemma step_ok_uniform:
  assumes "step_ok net em s (r, s')"
    and "\<forall>h. \<exists>tok. readToken (settle (net h (tokenRequest (self s)))) = Inr tok"
    and "\<forall>h q. rq_method q = POST \<longrightarrow> net h q = HttpResponse 200 body"
  shows "wire s' \<noteq> wire s \<and>
         (\<exists>q. rq_method q = POST \<and> last (wire s') = (q, HttpResponse 200 body)) \<and>
         r = (if truthy body then Inr body
              else Inl (MpesaException (JStr ''No response received'')))"
proof -
  from assms(2) obtain tok where
    t: "readToken (settle (net (wire s) (tokenRequest (self s)))) = Inr tok" by blast
  have p: "rq_method (postRequest this ep tk pl) = POST" for this ep tk pl
    by (simp add: postRequest_def)
  from assms(1) t obtain ep pl where
    w: "wire s' = wire s @ [(tokenRequest (self s), net (wire s) (tokenRequest (self s))),
          (postRequest (self s) ep tok pl,
           net (wire s @ [(tokenRequest (self s), net (wire s) (tokenRequest (self s)))])
             (postRequest (self s) ep tok pl))]"
    and r: "r = judge em (post_outcome
          (net (wire s @ [(tokenRequest (self s), net (wire s) (tokenRequest (self s)))])
             (postRequest (self s) ep tok pl)))"
    by (auto simp: step_ok_def Let_def)
  from assms(3) p have
    b: "net (wire s @ [(tokenRequest (self s), net (wire s) (tokenRequest (self s)))])
          (postRequest (self s) ep tok pl) = HttpResponse 200 body"
    by blast
  from w b have "last (wire s') = (postRequest (self s) ep tok pl, HttpResponse 200 body)"
    by simp
  with p have "\<exists>q. rq_method q = POST \<and> last (wire s') = (q, HttpResponse 200 body)"
    by blast
  moreover from w have "wire s' \<noteq> wire s" by simp
  moreover from r b have "r = (if truthy body then Inr body
              else Inl (MpesaException (JStr ''No response received'')))"
    by (simp only: judge_200)
  ultimately show ?thesis by blast
qed

lemma invoke_uniform:
  assumes "invoke net c s = (r, s')" and "c \<noteq> GetBusinessName"
    and "first_falsy c = None" and "type_supported (self s) c"
    and g: "\<forall>h. \<exists>tok. readToken (settle (net h (tokenRequest (self s)))) = Inr tok"
    and a: "\<forall>h q. rq_method q = POST \<longrightarrow> net h q = HttpResponse 200 body"
  shows "wire s' \<noteq> wire s \<and>
         (\<exists>q. rq_method q = POST \<and> last (wire s') = (q, HttpResponse 200 body)) \<and>
         r = (if truthy body then Inr body
              else Inl (MpesaException (JStr ''No response received'')))"
proof -
  from invoke_valid [OF assms(3,4,1)] assms(2) consider
    (single) "step_ok net (errorMessageOnly c) s (r, s')"
    | (double) org s1 where "step_ok net False s (Inr org, s1)" "step_ok net False s1 (r, s')"
    by blast
  then show ?thesis
  proof cases
    case single
    from step_ok_uniform [OF single g a] show ?thesis .
  next
    case double
    from double(1) have same: "self s1 = self s" by (simp add: step_ok_def)
    from double(1) have ext: "\<exists>new. wire s1 = wire s @ new"
      using step_ok_first [OF double(1)] by blast
    from g same have g1:
      "\<forall>h. \<exists>tok. readToken (settle (net h (tokenRequest (self s1)))) = Inr tok" by simp
    from step_ok_uniform [OF double(2) g1 a] have
      u: "wire s' \<noteq> wire s1"
         "\<exists>q. rq_method q = POST \<and> last (wire s') = (q, HttpResponse 200 body)"
         "r = (if truthy body then Inr body
               else Inl (MpesaException (JStr ''No response received'')))"
      by blast+
    from step_ok_first [OF double(2)] ext have "wire s' \<noteq> wire s" by auto
    with u show ?thesis by blast
  qed
qed

text \<open>
  C8, as the code has it. A call of a business operation whose business request is
  answered with status 200 returns the body of the answer as it is when the body is
  truthy, and fails with \<^verbatim>\<open>No response received\<close> when it is falsy: the test is
  \<^verbatim>\<open>!response.response\<close>, which holds of a body that was not sent and also of the
  bodies \<^verbatim>\<open>false\<close>, \<^verbatim>\<open>0\<close>, \<^verbatim>\<open>null\<close> and the empty string. The first conjunct is
  about any transport, read off the last exchange of the call. The second says that the
  call does get there: when its arguments pass the tests of the method, every token
  request is granted and every business request is answered with status 200 and the
  same body, the call ends with that answer to a business request and with that result.
\<close>

theorem success_returns_body:
  assumes "invoke net c s = (r, s')" and "c \<noteq> GetBusinessName"
  shows "(wire s' \<noteq> wire s \<and> last (wire s') = (rq, HttpResponse 200 body) \<and>
          rq_method rq = POST \<longrightarrow>
            (truthy body \<longrightarrow> r = Inr body) \<and>
            (\<not> truthy body \<longrightarrow> r = Inl (MpesaException (JStr ''No response received'')))) \<and>
         (first_falsy c = None \<and> type_supported (self s) c \<and>
          (\<forall>h. \<exists>tok. readToken (settle (net h (tokenRequest (self s)))) = Inr tok) \<and>
          (\<forall>h q. rq_method q = POST \<longrightarrow> net h q = HttpResponse 200 body1) \<longrightarrow>
            wire s' \<noteq> wire s \<and>
            (\<exists>q. rq_method q = POST \<and> last (wire s') = (q, HttpResponse 200 body1)) \<and>
            r = (if truthy body1 then Inr body1
                 else Inl (MpesaException (JStr ''No response received''))))"
proof -
  have "wire s' \<noteq> wire s \<and> last (wire s') = (rq, HttpResponse 200 body) \<and>
          rq_method rq = POST \<longrightarrow>
            (truthy body \<longrightarrow> r = Inr body) \<and>
            (\<not> truthy body \<longrightarrow> r = Inl (MpesaException (JStr ''No response received'')))"
    using invoke_last_post [OF assms, of rq "HttpResponse 200 body"] by (simp add: judge_post)
  moreover have "first_falsy c = None \<and> type_supported (self s) c \<and>
          (\<forall>h. \<exists>tok. readToken (settle (net h (tokenRequest (self s)))) = Inr tok) \<and>
          (\<forall>h q. rq_method q = POST \<longrightarrow> net h q = HttpResponse 200 body1) \<longrightarrow>
            wire s' \<noteq> wire s \<and>
            (\<exists>q. rq_method q = POST \<and> last (wire s') = (q, HttpResponse 200 body1)) \<and>
            r = (if truthy body1 then Inr body1
                 else Inl (MpesaException (JStr ''No response received'')))"
    using invoke_uniform [OF assms, of body1] by blast
  ultimately show ?thesis by blast
qed

lemma server_grants:
  "\<forall>h. \<exists>tok. readToken (settle (server answer h (tokenRequest this))) = Inr tok"
  by (simp add: server_def tokenRequest_def settle_def readToken_def token_body_def)

lemma server_answers: "\<forall>h q. rq_method q = POST \<longrightarrow> server answer h q = answer"
  by (simp add: server_def)

theorem success_returns_body_witness:
  "first_falsy a_push = None \<and> type_supported (self fresh) a_push \<and>
   fst (invoke (server accepted) a_push fresh) = Inr accepted_body \<and>
   last (wire (snd (invoke (server accepted) a_push fresh))) = (push_request, accepted) \<and>
   accepted = HttpResponse 200 accepted_body \<and> truthy accepted_body"
proof -
  let ?s' = "\<lparr> self = sandbox_client,
        wire = [(token_request, HttpResponse 200 token_body), (push_request, accepted)] \<rparr>"
  have t: "truthy accepted_body" by (simp add: accepted_body_def)
  have v: "first_falsy a_push = None" by (simp add: first_falsy_def a_push_def)
  have ts: "type_supported (self fresh) a_push" by (simp add: type_supported_def a_push_def)
  have ne: "a_push \<noteq> GetBusinessName" by (simp add: a_push_def)
  have l: "last (wire (snd (invoke (server accepted) a_push fresh))) = (push_request, accepted)"
    by (simp add: push_accepted)
  have an: "\<forall>h q. rq_method q = POST \<longrightarrow> server accepted h q = HttpResponse 200 accepted_body"
    using server_answers [of accepted] by (simp add: accepted_def)
  from success_returns_body [OF push_accepted ne, THEN conjunct2, of accepted_body]
    v ts server_grants [of accepted "self fresh"] an t
  have "fst (invoke (server accepted) a_push fresh) = Inr accepted_body"
    by (simp add: push_accepted)
  with t v ts l show ?thesis by (simp add: accepted_def)
qed

text \<open>
  C8 as stated fails: the token is granted and the business request of \<^verbatim>\<open>stkPush\<close> is
  answered with status 200 and the body \<^verbatim>\<open>false\<close>; the body was received, and the call
  fails with \<^verbatim>\<open>No response received\<close>.
\<close>

theorem received_false_body_rejected:
  "falsy_answer = HttpResponse 200 (JBool False) \<and>
   invoke (server falsy_answer) a_push fresh =
     (Inl (MpesaException (JStr ''No response received'')),
      \<lparr> self = sandbox_client,
        wire = [(token_request, HttpResponse 200 token_body), (push_request, falsy_answer)] \<rparr>) \<and>
   fst (invoke (server falsy_answer) a_push fresh) \<noteq> Inr (JBool False)"
  by code_simp

text \<open>
  C1, as the code has it. The dispatcher hands \<^verbatim>\<open>{response, httpCode}\<close> to the
  method only for a status from 200 to 299. For any other status it fails itself, with
  the first truthy of the body's \<^verbatim>\<open>errorMessage\<close>, its \<^verbatim>\<open>ResponseDescription\<close> and
  the message of the transport error; so status 400 with the body
  \<^verbatim>\<open>{ResponseMessage: "Invalid Amount"}\<close> fails with
  \<^verbatim>\<open>Request failed with status code 400\<close>. The check of the method applies to the
  statuses 201 to 299, where it reads \<^verbatim>\<open>ResponseMessage\<close> first, except in
  \<^verbatim>\<open>initiateB2BExpressCheckout\<close> and \<^verbatim>\<open>mpesaRatiba\<close>, which read
  \<^verbatim>\<open>errorMessage\<close> only. The last conjunct is the dispatcher by itself.
\<close>

theorem error_response_message:
  assumes "invoke net c s = (r, s')" and "c \<noteq> GetBusinessName" and "wire s' \<noteq> wire s"
    and "last (wire s') = (rq, HttpResponse st body)" and "rq_method rq = POST"
  shows "(\<not> (200 \<le> st \<and> st < 300) \<longrightarrow>
            r = Inl (MpesaException
                  (orJS (optProp body ''errorMessage'')
                     (orJS (optProp body ''ResponseDescription'')
                        (JStr (''Request failed with status code '' @ show_nat st)))))) \<and>
         (st = 400 \<and> body = JObj [(''ResponseMessage'', JStr ''Invalid Amount'')] \<longrightarrow>
            r = Inl (MpesaException (JStr ''Request failed with status code 400''))) \<and>
         (200 \<le> st \<and> st < 300 \<and> st \<noteq> 200 \<and> truthy body \<longrightarrow>
            r = Inl (MpesaException
                  (if errorMessageOnly c then
                     orJS (optProp body ''errorMessage'')
                       (JStr (''Request failed with status '' @ show_nat st))
                   else
                     orJS (optProp body ''ResponseMessage'')
                       (orJS (optProp body ''errorMessage'')
                          (JStr (''Request failed with status '' @ show_nat st)))))) \<and>
         (sendRequest net ep pl s0 = (x, s1) \<and> last (wire s1) = (rq1, HttpResponse st1 body1) \<and>
          rq_method rq1 = POST \<longrightarrow>
            x = (if 200 \<le> st1 \<and> st1 < 300 then Inr \<lparr> response = body1, httpCode = st1 \<rparr>
                 else Inl (MpesaException
                        (orJS (optProp body1 ''errorMessage'')
                           (orJS (optProp body1 ''ResponseDescription'')
                              (JStr (''Request failed with status code '' @ show_nat st1)))))))"
proof -
  have n: "show_nat 400 = ''400''" by code_simp
  have "(\<not> (200 \<le> st \<and> st < 300) \<longrightarrow>
            r = Inl (MpesaException
                  (orJS (optProp body ''errorMessage'')
                     (orJS (optProp body ''ResponseDescription'')
                        (JStr (''Request failed with status code '' @ show_nat st)))))) \<and>
         (st = 400 \<and> body = JObj [(''ResponseMessage'', JStr ''Invalid Amount'')] \<longrightarrow>
            r = Inl (MpesaException (JStr ''Request failed with status code 400''))) \<and>
         (200 \<le> st \<and> st < 300 \<and> st \<noteq> 200 \<and> truthy body \<longrightarrow>
            r = Inl (MpesaException
                  (if errorMessageOnly c then
                     orJS (optProp body ''errorMessage'')
                       (JStr (''Request failed with status '' @ show_nat st))
                   else
                     orJS (optProp body ''ResponseMessage'')
                       (orJS (optProp body ''errorMessage'')
                          (JStr (''Request failed with status '' @ show_nat st))))))"
    using invoke_last_post [OF assms]
    by (auto simp: judge_post n optProp_def orJS_def)
  moreover have "sendRequest net ep pl s0 = (x, s1) \<and>
          last (wire s1) = (rq1, HttpResponse st1 body1) \<and> rq_method rq1 = POST \<longrightarrow>
            x = (if 200 \<le> st1 \<and> st1 < 300 then Inr \<lparr> response = body1, httpCode = st1 \<rparr>
                 else Inl (MpesaException
                        (orJS (optProp body1 ''errorMessage'')
                           (orJS (optProp body1 ''ResponseDescription'')
                              (JStr (''Request failed with status code '' @ show_nat st1))))))"
    using sendRequest_last_post [of net ep pl s0 x s1 rq1 st1 body1] by blast
  ultimately show ?thesis by blast
qed

theorem error_response_message_witness:
  "fst (invoke (server invalid_amount) a_push fresh) =
     Inl (MpesaException (JStr ''Request failed with status code 400'')) \<and>
   last (wire (snd (invoke (server invalid_amount) a_push fresh))) =
     (push_request, invalid_amount) \<and>
   invalid_amount = HttpResponse 400 (JObj [(''ResponseMessage'', JStr ''Invalid Amount'')])"
proof -
  let ?s' = "\<lparr> self = sandbox_client,
        wire = [(token_request, HttpResponse 200 token_body), (push_request, invalid_amount)] \<rparr>"
  let ?body = "JObj [(''ResponseMessage'', JStr ''Invalid Amount'')]"
  have l: "last (wire (snd (invoke (server invalid_amount) a_push fresh))) =
     (push_request, invalid_amount)"
    by (simp add: push_invalid_amount)
  have "wire ?s' \<noteq> wire fresh" by (simp add: fresh_def)
  moreover have "last (wire ?s') = (push_request, HttpResponse 400 ?body)"
    by (simp add: invalid_amount_def)
  moreover have "rq_method push_request = POST" by (simp add: push_request_def)
  moreover have "a_push \<noteq> GetBusinessName" by (simp add: a_push_def)
  ultimately have
    "fst (invoke (server invalid_amount) a_push fresh) =
       Inl (MpesaException (JStr ''Request failed with status code 400''))"
    using error_response_message [OF push_invalid_amount, of push_request 400 ?body]
    by (simp add: push_invalid_amount)
  with l show ?thesis by (simp add: invalid_amount_def)
qed

text \<open>
  C1 as stated fails: the token is granted, the business request of \<^verbatim>\<open>stkPush\<close> is
  answered with status 400 and the body \<^verbatim>\<open>{ResponseMessage: "Invalid Amount"}\<close>, and
  the call fails with the message of the transport error.
\<close>

theorem invalid_amount_not_reported:
  "server invalid_amount [(token_request, HttpResponse 200 token_body)] push_request =
     HttpResponse 400 (JObj [(''ResponseMessage'', JStr ''Invalid Amount'')]) \<and>
   invoke (server invalid_amount) a_push fresh =
     (Inl (MpesaException (JStr ''Request failed with status code 400'')),
      \<lparr> self = sandbox_client,
        wire = [(token_request, HttpResponse 200 token_body), (push_request, invalid_amount)] \<rparr>) \<and>
   fst (invoke (server invalid_amount) a_push fresh) \<noteq>
     Inl (MpesaException (JStr ''Invalid Amount''))"
  by code_simp

section \<open>Token failures\<close>

lemma token_fails_iff:
  "(\<exists>e. readToken (settle a) = Inl e) =
     (case a of
        NetworkError m \<Rightarrow> True
      | HttpResponse st body \<Rightarrow>
          \<not> (200 \<le> st \<and> st < 300) \<or> \<not> truthy (optProp body ''access_token''))"
  by (cases a) (auto simp: readToken_def settle_def optProp_def split: option.splits)

lemma step_ok_token_rule:
  assumes "step_ok net em s (r, s')"
  shows "\<exists>new. wire s' = wire s @ new \<and> token_rule new r"
proof (cases "readToken (settle (net (wire s) (tokenRequest (self s))))")
  case (Inl e)
  with assms have "wire s' = wire s @ [(tokenRequest (self s), net (wire s) (tokenRequest (self s)))]"
    "r = Inl (tokenFailure e)" by (simp_all add: step_ok_def Let_def)
  moreover from Inl have "token_rule [(tokenRequest (self s), net (wire s) (tokenRequest (self s)))] (Inl (tokenFailure e))"
    by (simp add: token_rule_def)
  ultimately show ?thesis by blast
next
  case (Inr tok)
  with assms obtain ep pl b where
    w: "wire s' = wire s @ [(tokenRequest (self s), net (wire s) (tokenRequest (self s))),
                            (postRequest (self s) ep tok pl, b)]"
    by (auto simp: step_ok_def Let_def)
  from Inr have "token_rule [(tokenRequest (self s), net (wire s) (tokenRequest (self s))),
                            (postRequest (self s) ep tok pl, b)] r"
    by (auto simp: token_rule_def less_Suc_eq postRequest_def)
  with w show ?thesis by blast
qed

lemma token_rule_Inr_append:
  assumes "token_rule new1 (Inr v)" and "token_rule new2 r"
  shows "token_rule (new1 @ new2) r"
  unfolding token_rule_def
proof (intro allI impI)
  fix i e
  assume i: "i < length (new1 @ new2)"
    and f: "rq_method (fst ((new1 @ new2) ! i)) = GET \<and>
            readToken (settle (snd ((new1 @ new2) ! i))) = Inl e"
  show "Suc i = length (new1 @ new2) \<and> r = Inl (tokenFailure e)"
  proof (cases "i < length new1")
    case True
    with f assms(1) show ?thesis by (auto simp: token_rule_def nth_append)
  next
    case False
    with i have "i - length new1 < length new2" by simp
    moreover from False f have "rq_method (fst (new2 ! (i - length new1))) = GET \<and>
            readToken (settle (snd (new2 ! (i - length new1)))) = Inl e"
      by (simp add: nth_append)
    ultimately have "Suc (i - length new1) = length new2 \<and> r = Inl (tokenFailure e)"
      using assms(2) by (simp add: token_rule_def)
    with False show ?thesis by auto
  qed
qed

lemma token_rule_Inr: "token_rule new (Inr v) \<Longrightarrow> token_rule new (Inr w)"
  by (auto simp: token_rule_def)

lemma invoke_token_rule:
  assumes "invoke net c s = (r, s')"
  shows "\<exists>new. wire s' = wire s @ new \<and> token_rule new r"
proof -
  from invoke_cases [OF assms] consider
    (invalid) "s' = s"
    | (single) "step_ok net (errorMessageOnly c) s (r, s')"
    | (name) org where "step_ok net False s (Inr org, s')" "r = Inr (optProp org ''OrganizationName'')"
    | (double) org s1 where "step_ok net False s (Inr org, s1)" "step_ok net False s1 (r, s')"
    by blast
  then show ?thesis
  proof cases
    case invalid
    then have "wire s' = wire s @ []" "token_rule [] r" by (simp_all add: token_rule_def)
    then show ?thesis by blast
  next
    case single
    then show ?thesis by (rule step_ok_token_rule)
  next
    case name
    from step_ok_token_rule [OF name(1)] name(2) show ?thesis
      by (auto dest: token_rule_Inr)
  next
    case double
    from step_ok_token_rule [OF double(1)] obtain new1 where
      a: "wire s1 = wire s @ new1" "token_rule new1 (Inr org)" by blast
    from step_ok_token_rule [OF double(2)] obtain new2 where
      b: "wire s' = wire s1 @ new2" "token_rule new2 r" by blast
    from a b have "wire s' = wire s @ (new1 @ new2)" by simp
    moreover from a(2) b(2) have "token_rule (new1 @ new2) r" by (rule token_rule_Inr_append)
    ultimately show ?thesis by blast
  qed
qed

text \<open>
  C7. Among the exchanges a call adds to the wire, a token request that failed is the
  last one, so no business request follows it, and the call fails with
  \<^verbatim>\<open>Failed to generate access token: \<close> followed by the message of the underlying
  error. A token request fails exactly when the transport fails, the status is not
  from 200 to 299, or the body has no truthy \<^verbatim>\<open>access_token\<close>.
\<close>

theorem token_failure_ends_call:
  assumes "invoke net c s = (r, s')"
  shows "(\<exists>new. wire s' = wire s @ new \<and>
           (\<forall>i<length new. \<forall>e.
              rq_method (fst (new ! i)) = GET \<and> readToken (settle (snd (new ! i))) = Inl e \<longrightarrow>
              Suc i = length new \<and>
              r = Inl (MpesaException
                    (JStr (''Failed to generate access token: '' @ toStringJS (message e)))))) \<and>
         ((\<exists>e. readToken (settle a) = Inl e) =
            (case a of
               NetworkError m \<Rightarrow> True
             | HttpResponse st body \<Rightarrow>
                 \<not> (200 \<le> st \<and> st < 300) \<or> \<not> truthy (optProp body ''access_token'')))"
  using invoke_token_rule [OF assms] token_fails_iff [of a]
  by (simp add: token_rule_def tokenFailure_def)

theorem token_failure_ends_call_witness:
  "invoke offline a_push fresh =
     (Inl (MpesaException (JStr
        ''Failed to generate access token: getaddrinfo ENOTFOUND sandbox.safaricom.co.ke'')),
      \<lparr> self = sandbox_client,
        wire = [(token_request,
                 NetworkError ''getaddrinfo ENOTFOUND sandbox.safaricom.co.ke'')] \<rparr>) \<and>
   rq_method token_request = GET \<and>
   readToken (settle (NetworkError ''getaddrinfo ENOTFOUND sandbox.safaricom.co.ke'')) =
     Inl (AxiosError ''getaddrinfo ENOTFOUND sandbox.safaricom.co.ke'' None)"
proof -
  let ?m = "''getaddrinfo ENOTFOUND sandbox.safaricom.co.ke''"
  let ?r = "Inl (MpesaException (JStr
        ''Failed to generate access token: getaddrinfo ENOTFOUND sandbox.safaricom.co.ke'')) ::
      js_error + jsval"
  let ?s' = "\<lparr> self = sandbox_client, wire = [(token_request, NetworkError ?m)] \<rparr>"
  have g: "rq_method token_request = GET" by (simp add: token_request_def)
  have f: "readToken (settle (NetworkError ?m)) = Inl (AxiosError ?m None)"
    by (simp add: readToken_def settle_def)
  from token_failure_ends_call [OF push_offline, THEN conjunct1] obtain new where
    n: "wire ?s' = wire fresh @ new" and
    rule: "\<forall>i<length new. \<forall>e.
      rq_method (fst (new ! i)) = GET \<and> readToken (settle (snd (new ! i))) = Inl e \<longrightarrow>
      Suc i = length new \<and>
      ?r = Inl (MpesaException
            (JStr (''Failed to generate access token: '' @ toStringJS (message e))))"
    by (elim exE conjE) (rule that)
  from n have new: "new = [(token_request, NetworkError ?m)]" by (simp add: fresh_def)
  from rule [rule_format, of 0 "AxiosError ?m None"] new g f
  have "Suc 0 = length new" by simp
  with g f show ?thesis using push_offline by simp
qed

section \<open>What the wire carries\<close>

lemma stamped_token: "stamped_exchange this (tokenRequest this, a)"
  by (simp add: stamped_exchange_def tokenRequest_def stamped_endpoints_def)

lemma stamped_post:
  "stamped this ep pl \<Longrightarrow> stamped_exchange this (postRequest this ep tok pl, b)"
  by (auto simp: stamped_exchange_def postRequest_def stamped_def)

lemma step_ok_frame:
  assumes "step_ok net em s (r, s')"
  shows "self s' = self s \<and>
         (\<exists>new. wire s' = wire s @ new \<and> (\<forall>x\<in>set new. stamped_exchange (self s) x))"
proof (cases "readToken (settle (net (wire s) (tokenRequest (self s))))")
  case (Inl e)
  with assms show ?thesis by (simp add: step_ok_def Let_def stamped_token)
next
  case (Inr tok)
  with assms show ?thesis by (auto simp: step_ok_def Let_def stamped_token stamped_post)
qed

lemma invoke_frame:
  assumes "invoke net c s = (r, s')"
  shows "self s' = self s \<and>
         (\<exists>new. wire s' = wire s @ new \<and> (\<forall>x\<in>set new. stamped_exchange (self s) x))"
proof -
  from invoke_cases [OF assms] consider
    (invalid) "s' = s"
    | (single) r1 where "step_ok net (errorMessageOnly c) s (r1, s')"
    | (name) org where "step_ok net False s (Inr org, s')"
    | (double) org s1 where "step_ok net False s (Inr org, s1)" "step_ok net False s1 (r, s')"
    by blast
  then show ?thesis
  proof cases
    case invalid
    then show ?thesis by simp
  next
    case single
    then show ?thesis by (rule step_ok_frame)
  next
    case name
    then show ?thesis by (rule step_ok_frame)
  next
    case double
    from step_ok_frame [OF double(1)] obtain new1 where
      a: "self s1 = self s" "wire s1 = wire s @ new1" "\<forall>x\<in>set new1. stamped_exchange (self s) x"
      by blast
    from step_ok_frame [OF double(2)] a(1) obtain new2 where
      b: "self s' = self s" "wire s' = wire s1 @ new2" "\<forall>x\<in>set new2. stamped_exchange (self s) x"
      by auto
    from a b have "wire s' = wire s @ (new1 @ new2)"
      "\<forall>x\<in>set (new1 @ new2). stamped_exchange (self s) x" by auto
    with b(1) show ?thesis by blast
  qed
qed

lemma run_frame:
  "run net cs s = (rs, s') \<Longrightarrow>
   self s' = self s \<and>
   (\<exists>new. wire s' = wire s @ new \<and> (\<forall>x\<in>set new. stamped_exchange (self s) x))"
proof (induction cs arbitrary: s rs s')
  case Nil
  then show ?case by simp
next
  case (Cons c cs)
  obtain r s1 where i: "invoke net c s = (r, s1)" by (cases "invoke net c s")
  obtain rs1 s2 where r: "run net cs s1 = (rs1, s2)" by (cases "run net cs s1")
  from Cons.prems i r have e: "s' = s2" by simp
  from invoke_frame [OF i] obtain new1 where
    a: "self s1 = self s" "wire s1 = wire s @ new1" "\<forall>x\<in>set new1. stamped_exchange (self s) x"
    by blast
  from Cons.IH [OF r] a(1) obtain new2 where
    b: "self s2 = self s" "wire s2 = wire s1 @ new2" "\<forall>x\<in>set new2. stamped_exchange (self s) x"
    by auto
  from a b have "wire s2 = wire s @ (new1 @ new2)"
    "\<forall>x\<in>set (new1 @ new2). stamped_exchange (self s) x" by auto
  with b(1) e show ?case by blast
qed

text \<open>
  C9. After any sequence of calls of public methods on a constructed client the client is
  the one that was constructed, field for field: its timestamp is the one taken at
  construction and its password the one derived then. Every request that went to the
  endpoint of \<^verbatim>\<open>stkPush\<close>, \<^verbatim>\<open>stkPushQuery\<close> or \<^verbatim>\<open>mpesaRatiba\<close> carries that
  timestamp and that password.
\<close>

theorem secrets_fixed_at_construction:
  assumes "new_Mpesa pf config = Inr c"
    and "run net cs \<lparr> self = c, wire = [] \<rparr> = (rs, s')"
  shows "self s' = c \<and> m_timeStamp c = timeStampOf (nowISO pf) \<and>
         m_shortCodePassword c = generatePassword c \<and>
         (\<forall>x\<in>set (wire s').
            rq_url (fst x) \<in> set (map (\<lambda>ep. m_baseUrl c @ ''/'' @ ep) stamped_endpoints) \<longrightarrow>
            optProp (rq_data (fst x)) ''Timestamp'' = JStr (m_timeStamp c) \<and>
            optProp (rq_data (fst x)) ''Password'' = JStr (m_shortCodePassword c))"
proof -
  from assms(1) have "m_timeStamp c = timeStampOf (nowISO pf)"
    "m_shortCodePassword c = generatePassword c"
    unfolding new_Mpesa_def Let_def generatePassword_def
    by (auto split: sum.splits option.splits)
  with run_frame [OF assms(2)] show ?thesis
    by (auto simp: stamped_exchange_def carries_secrets_def)
qed

theorem secrets_fixed_at_construction_witness:
  "new_Mpesa demo_platform sandbox_config = Inr sandbox_client \<and>
   self (snd (run (server accepted) [a_push, GetBusinessName]
                \<lparr> self = sandbox_client, wire = [] \<rparr>)) = sandbox_client \<and>
   (push_request, accepted) \<in>
     set (wire (snd (run (server accepted) [a_push, GetBusinessName]
                       \<lparr> self = sandbox_client, wire = [] \<rparr>))) \<and>
   optProp (rq_data push_request) ''Timestamp'' = JStr ''20240101120000'' \<and>
   optProp (rq_data push_request) ''Password'' =
     JStr ''MTc0Mzc5YmZiMjc5ZjkyMDI0MDEwMTEyMDAwMA==''"
proof -
  let ?s' = "\<lparr> self = sandbox_client,
        wire = [(token_request, HttpResponse 200 token_body), (push_request, accepted),
                (token_request, HttpResponse 200 token_body), (org_request 4, accepted)] \<rparr>"
  note fact = secrets_fixed_at_construction [OF construct_sandbox run_push_then_name]
  have u: "rq_url push_request \<in>
      set (map (\<lambda>ep. m_baseUrl sandbox_client @ ''/'' @ ep) stamped_endpoints)"
    by (simp add: push_request_def sandbox_client_def stamped_endpoints_def)
  have m: "(push_request, accepted) \<in> set (wire ?s')" by simp
  from fact have "\<forall>x\<in>set (wire ?s').
            rq_url (fst x) \<in> set (map (\<lambda>ep. m_baseUrl sandbox_client @ ''/'' @ ep) stamped_endpoints) \<longrightarrow>
            optProp (rq_data (fst x)) ''Timestamp'' = JStr (m_timeStamp sandbox_client) \<and>
            optProp (rq_data (fst x)) ''Password'' = JStr (m_shortCodePassword sandbox_client)"
    by (elim conjE)
  from this [rule_format, OF m] u
  have "optProp (rq_data push_request) ''Timestamp'' = JStr (m_timeStamp sandbox_client) \<and>
        optProp (rq_data push_request) ''Password'' = JStr (m_shortCodePassword sandbox_client)"
    by simp
  then have "optProp (rq_data push_request) ''Timestamp'' = JStr ''20240101120000'' \<and>
   optProp (rq_data push_request) ''Password'' =
     JStr ''MTc0Mzc5YmZiMjc5ZjkyMDI0MDEwMTEyMDAwMA==''"
    by (simp add: sandbox_client_def)
  with construct_sandbox show ?thesis unfolding run_push_then_name by simp
qed

section \<open>Arguments\<close>

text \<open>
  C5. \<^verbatim>\<open>queryOrgInfo\<close> with a type other than \<^verbatim>\<open>till\<close> and \<^verbatim>\<open>paybill\<close> fails with
  \<^verbatim>\<open>Identifier type is not supported\<close> and leaves the state as it was: nothing went
  over the wire. With \<^verbatim>\<open>till\<close> (\<open>n = 2\<close>) and with \<^verbatim>\<open>paybill\<close> (\<open>n = 4\<close>) it makes
  the token request and, when the token came, sends the payload with
  \<^verbatim>\<open>IdentifierType\<close> \<open>n\<close> and the shortcode as \<^verbatim>\<open>Identifier\<close>.
\<close>

theorem queryOrgInfo_identifier:
  "(t \<noteq> JStr ''till'' \<and> t \<noteq> JStr ''paybill'' \<longrightarrow>
      queryOrgInfo net t sc s =
        (Inl (MpesaException (JStr ''Identifier type is not supported'')), s)) \<and>
   (t = JStr ''till'' \<and> n = 2 \<or> t = JStr ''paybill'' \<and> n = 4 \<longrightarrow>
      wire (snd (queryOrgInfo net t sc s)) =
        (let T = tokenRequest (self s); a = net (wire s) T
         in case readToken (settle a) of
              Inl e \<Rightarrow> wire s @ [(T, a)]
            | Inr tok \<Rightarrow>
                (let P = postRequest (self s) ''sfcverify/v1/query/info'' tok
                           (JObj [(''IdentifierType'', JNum n), (''Identifier'', sc)])
                 in wire s @ [(T, a), (P, net (wire s @ [(T, a)]) P)])))"
  by (auto simp: queryOrgInfo_def throw_def snd_unwrap wire_sendRequest Let_def
        split: sum.splits)

theorem queryOrgInfo_identifier_witness:
  "queryOrgInfo (server accepted) (JStr ''bank'') (JStr ''174379'') fresh =
     (Inl (MpesaException (JStr ''Identifier type is not supported'')), fresh) \<and>
   wire (snd (queryOrgInfo (server accepted) (JStr ''till'') (JStr ''174379'') fresh)) =
     [(token_request, HttpResponse 200 token_body), (org_request 2, accepted)] \<and>
   wire (snd (queryOrgInfo (server accepted) (JStr ''paybill'') (JStr ''174379'') fresh)) =
     [(token_request, HttpResponse 200 token_body), (org_request 4, accepted)]"
proof -
  have a: "queryOrgInfo (server accepted) (JStr ''bank'') (JStr ''174379'') fresh =
     (Inl (MpesaException (JStr ''Identifier type is not supported'')), fresh)"
    using queryOrgInfo_identifier [of "JStr ''bank''" "server accepted" "JStr ''174379''" fresh 2]
    by simp
  have b: "wire (snd (queryOrgInfo (server accepted) (JStr ''till'') (JStr ''174379'') fresh)) =
     [(token_request, HttpResponse 200 token_body), (org_request 2, accepted)]"
    using queryOrgInfo_identifier [of "JStr ''till''" "server accepted" "JStr ''174379''" fresh 2]
    by (simp only: org_wire) simp
  have c: "wire (snd (queryOrgInfo (server accepted) (JStr ''paybill'') (JStr ''174379'') fresh)) =
     [(token_request, HttpResponse 200 token_body), (org_request 4, accepted)]"
    using queryOrgInfo_identifier [of "JStr ''paybill''" "server accepted" "JStr ''174379''" fresh 4]
    by (simp only: org_wire) simp
  from a b c show ?thesis by blast
qed

lemma falsy_argument_rejected:
  assumes "first_falsy c = Some (v, msg)"
  shows "invoke net c s = (Inl (MpesaException (JStr msg)), s)"
proof (cases c)
  case (StkPush a p acc cb d)
  with assms show ?thesis
    by (auto simp: first_falsy_def stkPush_def throw_def Let_def split: if_splits)
next
  case (QueryOrgInfo t sc)
  with assms show ?thesis by (simp add: first_falsy_def)
next
  case (GenerateQRCode a acc sz)
  with assms show ?thesis
    by (auto simp: first_falsy_def generateQRCode_def throw_def Let_def split: if_splits)
next
  case (StkPushQuery x)
  with assms show ?thesis
    by (auto simp: first_falsy_def stkPushQuery_def throw_def Let_def split: if_splits)
next
  case (RegisterUrl rt cu vu)
  with assms show ?thesis
    by (auto simp: first_falsy_def registerUrl_def throw_def Let_def split: if_splits)
next
  case (InitiateB2C a p cmd ru qu rm)
  with assms show ?thesis
    by (auto simp: first_falsy_def initiateB2C_def throw_def Let_def split: if_splits)
next
  case (TransactionStatus t ru qu)
  with assms show ?thesis
    by (auto simp: first_falsy_def transactionStatus_def throw_def Let_def split: if_splits)
next
  case (AccountBalance ru qu)
  with assms show ?thesis
    by (auto simp: first_falsy_def accountBalance_def throw_def Let_def split: if_splits)
next
  case (ReverseTransaction a t ru qu)
  with assms show ?thesis
    by (auto simp: first_falsy_def reverseTransaction_def throw_def Let_def split: if_splits)
next
  case (TaxRemittance a prn ru qu)
  with assms show ?thesis
    by (auto simp: first_falsy_def taxRemittance_def throw_def Let_def split: if_splits)
next
  case (InitiateB2B a pt sc acc ru qu)
  with assms show ?thesis
    by (auto simp: first_falsy_def initiateB2B_def throw_def Let_def split: if_splits)
next
  case (InitiateB2BExpressCheckout en a rsc cb pn pr rr)
  with assms show ?thesis
    by (auto simp: first_falsy_def initiateB2BExpressCheckout_def throw_def Let_def
          split: if_splits)
next
  case (MpesaRatiba a p ar sd ed son cb f)
  with assms show ?thesis
    by (auto simp: first_falsy_def mpesaRatiba_def throw_def Let_def split: if_splits)
next
  case GetBusinessName
  with assms show ?thesis by (simp add: first_falsy_def)
qed

text \<open>
  C6, as the code has it. The arguments a method tests are those of \<open>required_checks\<close>,
  and no other. When one of them is missing or falsy, the call fails with the
  required-field message of the first such argument in the order of the tests, and the
  state is as it was: no token request and no business request was made. When all of
  them are truthy the call is not stopped by any other argument: it makes the token
  request, unless the identifier type is not supported, which is an error of its own,
  again with the state as it was.
\<close>

theorem required_arguments_checked:
  "(first_falsy c = Some (v, msg) \<longrightarrow>
      invoke net c s = (Inl (MpesaException (JStr msg)), s)) \<and>
   (first_falsy c = None \<and> \<not> type_supported (self s) c \<longrightarrow>
      invoke net c s = (Inl (MpesaException (JStr ''Identifier type is not supported'')), s)) \<and>
   (first_falsy c = None \<and> type_supported (self s) c \<longrightarrow>
      (\<exists>rest. wire (snd (invoke net c s)) =
         wire s @ (tokenRequest (self s), net (wire s) (tokenRequest (self s))) # rest))"
proof -
  have "first_falsy c = None \<and> type_supported (self s) c \<longrightarrow>
      (\<exists>rest. wire (snd (invoke net c s)) =
         wire s @ (tokenRequest (self s), net (wire s) (tokenRequest (self s))) # rest)"
    using invoke_valid_first [of c s net "fst (invoke net c s)" "snd (invoke net c s)"]
    by simp
  then show ?thesis
    using falsy_argument_rejected [of c v msg net s] unsupported_type [of c s net]
    by blast
qed

theorem required_arguments_checked_witness:
  "first_falsy a_push_without_phone = Some (JUndefined, ''Phone number is required'') \<and>
   invoke (server accepted) a_push_without_phone fresh =
     (Inl (MpesaException (JStr ''Phone number is required'')), fresh) \<and>
   first_falsy a_b2b_without_account = None \<and>
   type_supported (self fresh) a_b2b_without_account \<and>
   (\<exists>rest. wire (snd (invoke (server accepted) a_b2b_without_account fresh)) =
      (token_request, HttpResponse 200 token_body) # rest) \<and>
   first_falsy (QueryOrgInfo (JStr ''bank'') (JStr ''174379'')) = None \<and>
   invoke (server accepted) (QueryOrgInfo (JStr ''bank'') (JStr ''174379'')) fresh =
     (Inl (MpesaException (JStr ''Identifier type is not supported'')), fresh)"
proof -
  have f: "first_falsy a_push_without_phone = Some (JUndefined, ''Phone number is required'')"
    by (simp add: first_falsy_def a_push_without_phone_def)
  have g: "first_falsy a_b2b_without_account = None"
    by (simp add: first_falsy_def a_b2b_without_account_def)
  have h: "type_supported (self fresh) a_b2b_without_account"
    by (simp add: type_supported_def a_b2b_without_account_def)
  have i: "first_falsy (QueryOrgInfo (JStr ''bank'') (JStr ''174379'')) = None"
    by (simp add: first_falsy_def)
  have j: "\<not> type_supported (self fresh) (QueryOrgInfo (JStr ''bank'') (JStr ''174379''))"
    by (simp add: type_supported_def)
  have k: "tokenRequest sandbox_client = token_request"
    "server accepted [] token_request = HttpResponse 200 token_body"
    by code_simp+
  have a: "invoke (server accepted) a_push_without_phone fresh =
     (Inl (MpesaException (JStr ''Phone number is required'')), fresh)"
    using required_arguments_checked
      [of a_push_without_phone JUndefined "''Phone number is required''" "server accepted" fresh]
      f by blast
  have b: "\<exists>rest. wire (snd (invoke (server accepted) a_b2b_without_account fresh)) =
      (token_request, HttpResponse 200 token_body) # rest"
    using required_arguments_checked
      [of a_b2b_without_account JUndefined "[]" "server accepted" fresh] g h
    by (simp add: k fresh_def)
  have c: "invoke (server accepted) (QueryOrgInfo (JStr ''bank'') (JStr ''174379'')) fresh =
     (Inl (MpesaException (JStr ''Identifier type is not supported'')), fresh)"
    using required_arguments_checked
      [of "QueryOrgInfo (JStr ''bank'') (JStr ''174379'')" JUndefined "[]" "server accepted" fresh]
      i j by blast
  from f g h i a b c show ?thesis by blast
qed

text \<open>
  C6 as stated fails: \<^verbatim>\<open>initiateB2B\<close> with the empty string for its account number
  makes the token request and the business request and returns the answer.
\<close>

theorem unchecked_argument_dispatched:
  "a_b2b_without_account =
     InitiateB2B (JNum 100) (JStr ''PaybillToPaybill'') (JStr ''600000'') (JStr [])
       (JStr ''https://example.com/result'') JUndefined \<and>
   \<not> truthy (JStr []) \<and>
   invoke (server accepted) a_b2b_without_account fresh =
     (Inr accepted_body,
      \<lparr> self = sandbox_client,
        wire = [(token_request, HttpResponse 200 token_body), (b2b_request, accepted)] \<rparr>)"
  by code_simp

text \<open>
  C10. With a truthy confirmation URL and validation URL, \<^verbatim>\<open>registerUrl\<close> is the
  dispatch of the payload that has the response type as it was given, whatever it is:
  the call is not one that ends with a required-field error before the network, the
  token request is made and, when the token came, the business request carries
  \<^verbatim>\<open>ResponseType\<close> as given.
\<close>

theorem registerUrl_responseType_unchecked:
  assumes "truthy cu" and "truthy vu"
  shows "registerUrl net rt cu vu s =
           unwrap (sendRequest net ''mpesa/c2b/v2/registerurl''
             (JObj [(''ShortCode'', JStr (m_businessShortCode (self s))),
                    (''ResponseType'', rt),
                    (''ConfirmationURL'', cu),
                    (''ValidationURL'', vu)]) s) \<and>
         (\<forall>msg. registerUrl net rt cu vu s \<noteq> throw msg s) \<and>
         wire (snd (registerUrl net rt cu vu s)) =
           (let T = tokenRequest (self s); a = net (wire s) T
            in case readToken (settle a) of
                 Inl e \<Rightarrow> wire s @ [(T, a)]
               | Inr tok \<Rightarrow>
                   (let P = postRequest (self s) ''mpesa/c2b/v2/registerurl'' tok
                              (JObj [(''ShortCode'', JStr (m_businessShortCode (self s))),
                                     (''ResponseType'', rt),
                                     (''ConfirmationURL'', cu),
                                     (''ValidationURL'', vu)])
                    in wire s @ [(T, a), (P, net (wire s @ [(T, a)]) P)]))"
proof -
  let ?pl = "JObj [(''ShortCode'', JStr (m_businessShortCode (self s))),
                    (''ResponseType'', rt), (''ConfirmationURL'', cu), (''ValidationURL'', vu)]"
  let ?out = "unwrap (sendRequest net ''mpesa/c2b/v2/registerurl'' ?pl s)"
  from assms have e: "registerUrl net rt cu vu s = ?out" by (simp add: registerUrl_def)
  have w: "wire (snd ?out) \<noteq> wire s"
    by (simp add: snd_unwrap wire_sendRequest Let_def split: sum.splits)
  then have "\<forall>msg. ?out \<noteq> throw msg s" by (auto simp: throw_def)
  with e show ?thesis by (simp add: snd_unwrap wire_sendRequest Let_def split: sum.splits)
qed

theorem registerUrl_responseType_unchecked_witness:
  "truthy (JStr ''https://example.com/confirm'') \<and>
   truthy (JStr ''https://example.com/validate'') \<and> \<not> truthy (JStr []) \<and>
   wire (snd (registerUrl (server accepted) (JStr []) (JStr ''https://example.com/confirm'')
                (JStr ''https://example.com/validate'') fresh)) =
     [(token_request, HttpResponse 200 token_body), (register_request (JStr []), accepted)] \<and>
   wire (snd (registerUrl (server accepted) JUndefined (JStr ''https://example.com/confirm'')
                (JStr ''https://example.com/validate'') fresh)) =
     [(token_request, HttpResponse 200 token_body), (register_request JUndefined, accepted)]"
proof -
  have cu: "truthy (JStr ''https://example.com/confirm'')" by simp
  have vu: "truthy (JStr ''https://example.com/validate'')" by simp
  have a: "wire (snd (registerUrl (server accepted) (JStr []) (JStr ''https://example.com/confirm'')
                (JStr ''https://example.com/validate'') fresh)) =
     [(token_request, HttpResponse 200 token_body), (register_request (JStr []), accepted)]"
    using registerUrl_responseType_unchecked [OF cu vu, of "server accepted" "JStr []" fresh,
        THEN conjunct2, THEN conjunct2]
    by (simp only: register_wire)
  have b: "wire (snd (registerUrl (server accepted) JUndefined (JStr ''https://example.com/confirm'')
                (JStr ''https://example.com/validate'') fresh)) =
     [(token_request, HttpResponse 200 token_body), (register_request JUndefined, accepted)]"
    using registerUrl_responseType_unchecked [OF cu vu, of "server accepted" JUndefined fresh,
        THEN conjunct2, THEN conjunct2]
    by (simp only: register_wire)
  from a b cu vu show ?thesis by simp
qed

end
